theory Spec2Isabelle
  imports Main "HOL-Library.Word" "HOL-Library.Sublist" "HOL-Library.Multiset"
begin

section \<open>JavaScript values\<close>

text \<open>
  A JavaScript string is a sequence of 16-bit code units.  The regular expressions and
  \<^verbatim>\<open>parseInt\<close> of \<^verbatim>\<open>server.js\<close> work on code units (no \<^verbatim>\<open>u\<close> flag), so
  this is the granularity at which characters are kept, dropped and compared.
  String literals of the source are written \<open>str ''...''\<close>.
\<close>

type_synonym code_unit = "16 word"
type_synonym jsstring = "code_unit list"

definition str :: "string \<Rightarrow> jsstring" where
  "str s = map of_char s"

text \<open>
  The primitive values that a field of the tool's JSON output can hold.  An absent
  property reads as \<open>JUndefined\<close>.  Numbers are modelled as mathematical integers:
  heights, sizes and parsed resolution prefixes are integers, and a JavaScript double
  represents every integer of magnitude below \<open>2^53\<close> exactly.  Fractions and larger
  magnitudes, where a double rounds and prints in exponent form, are outside the model.
  \<^verbatim>\<open>NaN\<close> arises only as a result of \<^verbatim>\<open>parseInt\<close> and is represented there.
\<close>

datatype jsval = JUndefined | JNull | JBool bool | JNum int | JStr jsstring

text \<open>ToBoolean: what \<^verbatim>\<open>!x\<close>, \<^verbatim>\<open>x || y\<close> and \<^verbatim>\<open>x && y\<close> test.\<close>

fun truthy :: "jsval \<Rightarrow> bool" where
  "truthy JUndefined = False"
| "truthy JNull = False"
| "truthy (JBool b) = b"
| "truthy (JNum n) = (n \<noteq> 0)"
| "truthy (JStr s) = (s \<noteq> [])"

text \<open>\<^verbatim>\<open>a || b\<close>\<close>

definition js_or :: "jsval \<Rightarrow> jsval \<Rightarrow> jsval" where
  "js_or a b = (if truthy a then a else b)"

text \<open>Decimal digits of a natural number, most significant first.\<close>

fun dec_nat :: "nat \<Rightarrow> jsstring" where
  "dec_nat n =
     (if n < 10 then [of_nat (48 + n)]
      else dec_nat (n div 10) @ [of_nat (48 + n mod 10)])"

declare dec_nat.simps [simp del]

text \<open>ToString on primitives, as string concatenation and template literals apply it.\<close>

fun to_string :: "jsval \<Rightarrow> jsstring" where
  "to_string JUndefined = str ''undefined''"
| "to_string JNull = str ''null''"
| "to_string (JBool b) = (if b then str ''true'' else str ''false'')"
| "to_string (JNum n) = (if n < 0 then str ''-'' @ dec_nat (nat (- n)) else dec_nat (nat n))"
| "to_string (JStr s) = s"

text \<open>
  \<^verbatim>\<open>a + s\<close> where the right operand is a string: the result is the concatenation of
  the string conversion of \<open>a\<close> with \<open>s\<close>.
\<close>

definition js_plus_str :: "jsval \<Rightarrow> jsstring \<Rightarrow> jsval" where
  "js_plus_str a s = JStr (to_string a @ s)"

section \<open>Formats\<close>

text \<open>
  A raw format, one element of \<^verbatim>\<open>metadata.formats\<close>.  Every field is whatever the
  tool reported, \<open>JUndefined\<close> when the key is missing.
\<close>

record raw_format =
  format_id :: jsval
  ext :: jsval
  resolution :: jsval
  format_note :: jsval
  height :: jsval
  vcodec :: jsval
  filesize :: jsval
  filesize_approx :: jsval

text \<open>
  A presented format, the object literal built at lines 88--93 and 99--104.  Its keys
  \<^verbatim>\<open>format_id\<close> and \<^verbatim>\<open>resolution\<close> are called \<open>p_format_id\<close> and
  \<open>p_resolution\<close> here, apart from the raw format's fields of the same name.
\<close>

record presented_format =
  p_format_id :: jsval
  extension :: jsval
  p_resolution :: jsval
  quality_label :: jsval

subsection \<open>Filter and map (lines 87--93)\<close>

text \<open>\<^verbatim>\<open>f => f.vcodec !== 'none' && f.resolution !== 'audio only'\<close>\<close>

definition video_filter :: "raw_format \<Rightarrow> bool" where
  "video_filter f =
     (vcodec f \<noteq> JStr (str ''none'') \<and> resolution f \<noteq> JStr (str ''audio only''))"

text \<open>
  \<^verbatim>\<open>f => ({format_id: f.format_id, extension: f.ext, resolution: f.resolution,
            quality_label: f.format_note || f.height + 'p'})\<close>
\<close>

definition to_presented :: "raw_format \<Rightarrow> presented_format" where
  "to_presented f =
     \<lparr> p_format_id = format_id f,
       extension = ext f,
       p_resolution = resolution f,
       quality_label = js_or (format_note f) (js_plus_str (height f) (str ''p'')) \<rparr>"

subsection \<open>Deduplication (line 94)\<close>

text \<open>
  \<^verbatim>\<open>Array.prototype.findIndex\<close>: the index of the first element that satisfies the
  predicate, \<open>-1\<close> when there is none.
\<close>

fun findIndex_from :: "nat \<Rightarrow> ('a \<Rightarrow> bool) \<Rightarrow> 'a list \<Rightarrow> int" where
  "findIndex_from i P [] = - 1"
| "findIndex_from i P (x # xs) = (if P x then int i else findIndex_from (Suc i) P xs)"

definition findIndex :: "('a \<Rightarrow> bool) \<Rightarrow> 'a list \<Rightarrow> int" where
  "findIndex P xs = findIndex_from 0 P xs"

text \<open>
  \<^verbatim>\<open>a.filter((v, i, a) => ...)\<close>: the callback sees the element, its index and the
  array itself.
\<close>

definition filter_indexed :: "('a \<Rightarrow> nat \<Rightarrow> 'a list \<Rightarrow> bool) \<Rightarrow> 'a list \<Rightarrow> 'a list" where
  "filter_indexed p a = map snd (filter (\<lambda>(i, v). p v i a) (enumerate 0 a))"

text \<open>\<^verbatim>\<open>t => (t.resolution === v.resolution && t.extension === v.extension)\<close>\<close>

definition same_pair :: "presented_format \<Rightarrow> presented_format \<Rightarrow> bool" where
  "same_pair v t = (p_resolution t = p_resolution v \<and> extension t = extension v)"

definition dedup :: "presented_format list \<Rightarrow> presented_format list" where
  "dedup xs = filter_indexed (\<lambda>v i a. findIndex (same_pair v) a = int i) xs"

subsection \<open>Sorting (line 95)\<close>

text \<open>White space and line terminators: what \<^verbatim>\<open>parseInt\<close> skips and \<^verbatim>\<open>\s\<close> matches.\<close>

definition is_space :: "code_unit \<Rightarrow> bool" where
  "is_space c =
     ((0x09 \<le> c \<and> c \<le> 0x0D) \<or> c = 0x20 \<or> c = 0xA0 \<or> c = 0x1680
      \<or> (0x2000 \<le> c \<and> c \<le> 0x200A) \<or> c = 0x2028 \<or> c = 0x2029 \<or> c = 0x202F
      \<or> c = 0x205F \<or> c = 0x3000 \<or> c = 0xFEFF)"

text \<open>The value of a code unit as a digit (\<open>0-9\<close>, \<open>a-z\<close>, \<open>A-Z\<close>), if it is one.\<close>

definition digit_value :: "code_unit \<Rightarrow> nat option" where
  "digit_value c =
     (if 0x30 \<le> c \<and> c \<le> 0x39 then Some (unat c - 0x30)
      else if 0x61 \<le> c \<and> c \<le> 0x7A then Some (unat c - 0x61 + 10)
      else if 0x41 \<le> c \<and> c \<le> 0x5A then Some (unat c - 0x41 + 10)
      else None)"

definition is_radix_digit :: "nat \<Rightarrow> code_unit \<Rightarrow> bool" where
  "is_radix_digit r c = (case digit_value c of None \<Rightarrow> False | Some d \<Rightarrow> d < r)"

definition radix_value :: "nat \<Rightarrow> jsstring \<Rightarrow> nat" where
  "radix_value r z = foldl (\<lambda>acc c. acc * r + (case digit_value c of None \<Rightarrow> 0 | Some d \<Rightarrow> d)) 0 z"

text \<open>
  \<^verbatim>\<open>parseInt(x)\<close> with no radix argument (the comparator calls it with one argument):
  the argument is converted to a string, leading white space is skipped, a sign is
  read, a \<^verbatim>\<open>0x\<close> or \<^verbatim>\<open>0X\<close> prefix selects radix 16, and the longest run of
  digits is read.  \<open>None\<close> is \<^verbatim>\<open>NaN\<close>: there is no digit to read.  The digits
  are read exactly; JavaScript agrees as long as the value is below \<open>2^53\<close>, which
  a run of up to 15 digits is.
\<close>

definition parseInt :: "jsval \<Rightarrow> int option" where
  "parseInt x =
     (let s0 = dropWhile is_space (to_string x);
          neg = (s0 \<noteq> [] \<and> hd s0 = 0x2D);
          s1 = (if s0 \<noteq> [] \<and> (hd s0 = 0x2B \<or> hd s0 = 0x2D) then tl s0 else s0);
          hex = (take 2 s1 = str ''0x'' \<or> take 2 s1 = str ''0X'');
          r = (if hex then 16 else 10);
          s2 = (if hex then drop 2 s1 else s1);
          z = takeWhile (is_radix_digit r) s2
      in if z = [] then None
         else Some ((if neg then - 1 else 1) * int (radix_value r z)))"

text \<open>\<^verbatim>\<open>parseInt(e.resolution) || 0\<close>: \<^verbatim>\<open>NaN\<close> and zero are falsy.\<close>

definition resolution_key :: "presented_format \<Rightarrow> int" where
  "resolution_key e = (case parseInt (p_resolution e) of None \<Rightarrow> 0 | Some n \<Rightarrow> if n = 0 then 0 else n)"

text \<open>\<^verbatim>\<open>(a, b) => (parseInt(b.resolution) || 0) - (parseInt(a.resolution) || 0)\<close>\<close>

definition compare_resolution :: "presented_format \<Rightarrow> presented_format \<Rightarrow> int" where
  "compare_resolution a b = resolution_key b - resolution_key a"

text \<open>
  \<^verbatim>\<open>Array.prototype.sort(comparefn)\<close> is a stable sort: an element moves behind
  another only when the comparator puts it strictly after.  For a comparator that is
  consistent, as one derived from a numeric key is, the result is determined, and
  insertion from the right computes it.
\<close>

fun insort_cmp :: "('a \<Rightarrow> 'a \<Rightarrow> int) \<Rightarrow> 'a \<Rightarrow> 'a list \<Rightarrow> 'a list" where
  "insort_cmp cmp x [] = [x]"
| "insort_cmp cmp x (y # ys) = (if cmp x y \<le> 0 then x # y # ys else y # insort_cmp cmp x ys)"

definition js_sort :: "('a \<Rightarrow> 'a \<Rightarrow> int) \<Rightarrow> 'a list \<Rightarrow> 'a list" where
  "js_sort cmp xs = foldr (insort_cmp cmp) xs []"

subsection \<open>The Format Selector (lines 86--104)\<close>

text \<open>The synthetic entry that \<^verbatim>\<open>formats.unshift\<close> puts in front.\<close>

definition mp3_entry :: presented_format where
  "mp3_entry =
     \<lparr> p_format_id = JStr (str ''mp3''),
       extension = JStr (str ''mp3''),
       p_resolution = JStr (str ''Audio Only''),
       quality_label = JStr (str ''MP3 Extraction'') \<rparr>"

text \<open>The video entries: filter, map, deduplicate, sort, \<^verbatim>\<open>slice(0, 8)\<close>.\<close>

definition video_formats :: "raw_format list \<Rightarrow> presented_format list" where
  "video_formats fs =
     take 8 (js_sort compare_resolution (dedup (map to_presented (filter video_filter fs))))"

definition format_selector :: "raw_format list \<Rightarrow> presented_format list" where
  "format_selector fs = mp3_entry # video_formats fs"

text \<open>The pair that line 94 compares: (resolution, extension).\<close>

definition pair_of :: "presented_format \<Rightarrow> jsval \<times> jsval" where
  "pair_of e = (p_resolution e, extension e)"

section \<open>The endpoints\<close>

subsection \<open>Requests, the tool, and what a handler does\<close>

text \<open>
  A query parameter as Express hands it to a handler.  It is a string, or, for a
  repeated or bracketed key, an array or an object.  Of an array or object the
  handlers use only that it is truthy, that it is strictly equal to no string, and
  its string conversion, which \<open>QOther\<close> carries.  An absent parameter is \<open>None\<close>.
\<close>

datatype qval = QStr jsstring | QOther jsstring

record query =
  url :: "qval option"
  format :: "qval option"

fun qv_truthy :: "qval \<Rightarrow> bool" where
  "qv_truthy (QStr s) = (s \<noteq> [])"
| "qv_truthy (QOther s) = True"

fun qv_to_string :: "qval \<Rightarrow> jsstring" where
  "qv_to_string (QStr s) = s"
| "qv_to_string (QOther s) = s"

text \<open>\<^verbatim>\<open>x === formatId\<close> for a field \<open>x\<close> of a raw format.\<close>

fun strict_eq :: "jsval \<Rightarrow> qval \<Rightarrow> bool" where
  "strict_eq (JStr s) (QStr t) = (s = t)"
| "strict_eq _ _ = False"

text \<open>
  The object that \<^verbatim>\<open>getVideoInfo\<close> resolves to.  \<open>formats\<close> is \<open>None\<close> when the
  key is missing.
\<close>

record metadata =
  title :: jsval
  thumbnail :: jsval
  uploader :: jsval
  duration_string :: jsval
  formats :: "raw_format list option"

text \<open>
  The External Downloader Tool is a parameter of the handlers: \<open>getVideoInfo\<close> maps
  the argument list to the metadata it resolves to, or to the error it rejects with.
\<close>

datatype tool_error = ToolError jsstring

type_synonym tool = "qval list \<Rightarrow> tool_error + metadata"

datatype body =
  ErrorBody jsstring
| InfoBody jsval jsval jsval jsval "presented_format list"

text \<open>
  What a handler does, in program order: its calls to the tool and its calls on the
  response.  Console output is left out.
\<close>

datatype effect =
  GetVideoInfo "qval list"
| ExecStream "qval list"
| Pipe
| SetHeader jsstring jsstring
| Status nat
| SendJson body
| SendText jsstring

definition user_agent :: jsstring where
  "user_agent = str ''Mozilla/5.0 (Windows NT 10.0; Win64; x64) AppleWebKit/537.36 (KHTML, like Gecko) Chrome/120.0.0.0 Safari/537.36''"

text \<open>The argument list of both metadata fetches (lines 79--83 and 129--133).\<close>

definition info_args :: "qval \<Rightarrow> qval list" where
  "info_args videoUrl =
     [videoUrl, QStr (str ''--user-agent''), QStr user_agent, QStr (str ''--no-check-certificates'')]"

subsection \<open>\<^verbatim>\<open>GET /api/info\<close> (lines 74--117)\<close>

text \<open>
  \<^verbatim>\<open>!videoUrl\<close> holds for an absent and for an empty parameter.  A rejected fetch
  lands in the \<^verbatim>\<open>catch\<close>.  \<^verbatim>\<open>metadata.formats || []\<close> reads a missing list as empty.
\<close>

definition api_info :: "tool \<Rightarrow> query \<Rightarrow> effect list" where
  "api_info getVideoInfo req =
     (case url req of
        None \<Rightarrow> [Status 400, SendJson (ErrorBody (str ''URL is required''))]
      | Some videoUrl \<Rightarrow>
          if \<not> qv_truthy videoUrl
          then [Status 400, SendJson (ErrorBody (str ''URL is required''))]
          else GetVideoInfo (info_args videoUrl) #
            (case getVideoInfo (info_args videoUrl) of
               Inl err \<Rightarrow>
                 [Status 500, SendJson (ErrorBody (str ''Failed to fetch video information.''))]
             | Inr metadata \<Rightarrow>
                 [SendJson (InfoBody (title metadata) (thumbnail metadata) (uploader metadata)
                    (duration_string metadata)
                    (format_selector (case formats metadata of None \<Rightarrow> [] | Some fs \<Rightarrow> fs)))]))"

subsection \<open>\<^verbatim>\<open>GET /api/download\<close> (lines 120--172)\<close>

text \<open>\<^verbatim>\<open>req.query.format || 'best'\<close>\<close>

definition format_or_best :: "qval option \<Rightarrow> qval" where
  "format_or_best v =
     (case v of
        None \<Rightarrow> QStr (str ''best'')
      | Some x \<Rightarrow> if qv_truthy x then x else QStr (str ''best''))"

text \<open>\<^verbatim>\<open>\w\<close>: ASCII letters, digits and the underscore.\<close>

definition is_word :: "code_unit \<Rightarrow> bool" where
  "is_word c =
     ((0x30 \<le> c \<and> c \<le> 0x39) \<or> (0x41 \<le> c \<and> c \<le> 0x5A) \<or> c = 0x5F
      \<or> (0x61 \<le> c \<and> c \<le> 0x7A))"

text \<open>
  \<^verbatim>\<open>title.replace(/[^\w\s-]/g, '')\<close>: \<open>stripped\<close> is the negated class (\<open>0x2D\<close>
  is the hyphen); every code unit that it matches is replaced by the empty string, and
  the others stay, in order.
\<close>

definition stripped :: "code_unit \<Rightarrow> bool" where
  "stripped c = (\<not> (is_word c \<or> is_space c \<or> c = 0x2D))"

definition strip_title :: "jsstring \<Rightarrow> jsstring" where
  "strip_title t = filter (\<lambda>c. \<not> stripped c) t"

text \<open>\<^verbatim>\<open>`${metadata.title.replace(...)}.${isMp3 ? 'mp3' : 'mp4'}`\<close>\<close>

definition download_filename :: "jsstring \<Rightarrow> qval \<Rightarrow> jsstring" where
  "download_filename t formatId =
     (let isMp3 = (formatId = QStr (str ''mp3''))
      in strip_title t @ str ''.'' @ (if isMp3 then str ''mp3'' else str ''mp4''))"

text \<open>\<^verbatim>\<open>`attachment; filename="${filename}"`\<close>; \<open>0x22\<close> is the double quote.\<close>

definition content_disposition :: "jsstring \<Rightarrow> jsstring" where
  "content_disposition filename = str ''attachment; filename='' @ [0x22] @ filename @ [0x22]"

text \<open>The arguments pushed for an MP3 extraction (line 150).\<close>

definition mp3_flags :: "qval list" where
  "mp3_flags =
     [QStr (str ''-x''), QStr (str ''--audio-format''), QStr (str ''mp3''),
      QStr (str ''--audio-quality''), QStr (str ''0'')]"

text \<open>The format selector expression of line 152.\<close>

definition format_expr :: "qval \<Rightarrow> jsstring" where
  "format_expr formatId =
     (if formatId = QStr (str ''best'') then str ''bestvideo+bestaudio/best''
      else qv_to_string formatId @ str ''+bestaudio/best'')"

text \<open>The argument list of the streaming invocation (lines 141--153).\<close>

definition download_args :: "qval \<Rightarrow> qval \<Rightarrow> qval list" where
  "download_args videoUrl formatId =
     [videoUrl, QStr (str ''--user-agent''), QStr user_agent,
      QStr (str ''--no-check-certificates''),
      QStr (str ''--concurrent-fragments''), QStr (str ''5''),
      QStr (str ''--buffer-size''), QStr (str ''16K'')]
     @ (if formatId = QStr (str ''mp3'') then mp3_flags
        else [QStr (str ''-f''), QStr (format_expr formatId)])"

text \<open>
  Lines 155--158.  \<^verbatim>\<open>find\<close> returns the first raw format whose identifier is
  strictly equal to the requested one; the header is set when that format exists and
  \<^verbatim>\<open>filesize || filesize_approx\<close> is truthy, to the value of that expression.
\<close>

definition content_length :: "raw_format list \<Rightarrow> qval \<Rightarrow> jsval option" where
  "content_length fs formatId =
     (case find (\<lambda>f. strict_eq (format_id f) formatId) fs of
        None \<Rightarrow> None
      | Some targetFormat \<Rightarrow>
          if truthy (js_or (filesize targetFormat) (filesize_approx targetFormat))
          then Some (js_or (filesize targetFormat) (filesize_approx targetFormat))
          else None)"

text \<open>
  \<^verbatim>\<open>res.header(name, value)\<close> converts the value to a string and hands it to the
  HTTP layer, which throws for a value with a code unit other than a tab,
  \<open>0x20\<close>--\<open>0x7E\<close> and \<open>0x80\<close>--\<open>0xFF\<close>.  Inside the \<^verbatim>\<open>try\<close> block the throw
  lands in the \<^verbatim>\<open>catch\<close>.
\<close>

definition valid_header_value :: "jsstring \<Rightarrow> bool" where
  "valid_header_value s =
     list_all (\<lambda>c. c = 0x09 \<or> (0x20 \<le> c \<and> c \<le> 0x7E) \<or> (0x80 \<le> c \<and> c \<le> 0xFF)) s"

text \<open>The \<^verbatim>\<open>catch\<close> of the download handler (lines 168--171).\<close>

definition prepare_failed :: "effect list" where
  "prepare_failed = [Status 500, SendText (str ''Failed to prepare download'')]"

text \<open>
  The \<^verbatim>\<open>try\<close> block after the metadata has arrived (lines 135--167).  A title that
  is not a string has no \<^verbatim>\<open>replace\<close> method, and a missing format list has no
  \<^verbatim>\<open>find\<close>: both throw a \<^verbatim>\<open>TypeError\<close>, caught at line 168.  Error events that the
  stream emits later, asynchronously, are not part of the handler's own run.
\<close>

definition stream_download :: "qval \<Rightarrow> qval \<Rightarrow> metadata \<Rightarrow> effect list" where
  "stream_download videoUrl formatId metadata =
     (case title metadata of
        JStr t \<Rightarrow>
          (let filename = download_filename t formatId in
           if \<not> valid_header_value (content_disposition filename) then prepare_failed
           else SetHeader (str ''Content-Disposition'') (content_disposition filename) #
             (let args = download_args videoUrl formatId in
              case formats metadata of
                None \<Rightarrow> prepare_failed
              | Some fs \<Rightarrow>
                  (case content_length fs formatId of
                     None \<Rightarrow> [ExecStream args, Pipe]
                   | Some v \<Rightarrow>
                       if \<not> valid_header_value (to_string v) then prepare_failed
                       else [SetHeader (str ''Content-Length'') (to_string v),
                             ExecStream args, Pipe])))
      | _ \<Rightarrow> prepare_failed)"

definition api_download :: "tool \<Rightarrow> query \<Rightarrow> effect list" where
  "api_download getVideoInfo req =
     (let formatId = format_or_best (format req) in
      case url req of
        None \<Rightarrow> [Status 400, SendText (str ''URL is required'')]
      | Some videoUrl \<Rightarrow>
          if \<not> qv_truthy videoUrl then [Status 400, SendText (str ''URL is required'')]
          else GetVideoInfo (info_args videoUrl) #
            (case getVideoInfo (info_args videoUrl) of
               Inl err \<Rightarrow> prepare_failed
             | Inr metadata \<Rightarrow> stream_download videoUrl formatId metadata))"

section \<open>The rate limiter (lines 26--35)\<close>

text \<open>The configuration passed to \<^verbatim>\<open>rateLimit\<close>: \<^verbatim>\<open>windowMs\<close>, \<^verbatim>\<open>max\<close> and \<^verbatim>\<open>message\<close>.\<close>

definition windowMs :: nat where
  "windowMs = 1 * 60 * 1000"

definition max_requests :: nat where
  "max_requests = 10"

definition limit_message :: jsstring where
  "limit_message = str ''Too many requests, please try again after a minute.''"

text \<open>
  A request as the limiter sees it: the client's network address, the path of the
  URL, and the time of arrival in milliseconds.
\<close>

record client_request =
  address :: jsstring
  pathname :: jsstring
  now :: nat

definition ascii_lower :: "code_unit \<Rightarrow> code_unit" where
  "ascii_lower c = (if 0x41 \<le> c \<and> c \<le> 0x5A then c + 0x20 else c)"

text \<open>
  Modelled from the spec: the matching of the mount path in \<^verbatim>\<open>app.use('/api/', limiter)\<close>
  is done by Express, whose code is not among the sources.  The spec says that the
  limiter "applies to the API namespace, not to static asset or redirect routes".  A
  path is in the namespace when it is \<^verbatim>\<open>/api\<close> or starts with \<^verbatim>\<open>/api/\<close>, letter
  case ignored.
\<close>

definition in_api :: "jsstring \<Rightarrow> bool" where
  "in_api p =
     (let q = map ascii_lower p in q = str ''/api'' \<or> take 5 q = str ''/api/'')"

text \<open>Per address: the time at which its window ends, and the hits counted in it.\<close>

type_synonym store = "jsstring \<rightharpoonup> nat \<times> nat"

text \<open>What the middleware does with a request: pass it on, or answer it itself.\<close>

datatype verdict = Next | Respond "effect list"

text \<open>
  Modelled from the spec: the response of the package \<^verbatim>\<open>express-rate-limit\<close> to a
  request over the limit, "a structured rate-limit error": status 429 with the
  configured message as JSON body.  The rate-limit headers that the spec mentions are
  left out.
\<close>

definition rate_limited_response :: "effect list" where
  "rate_limited_response = [Status 429, SendJson (ErrorBody limit_message)]"

text \<open>
  Modelled from the spec: the counter of the package \<^verbatim>\<open>express-rate-limit\<close>, whose
  code is not among the sources.  The spec: "Fixed-window limiter keyed by client
  network address"; "counts requests per key within a non-sliding time interval,
  resetting atomically at interval boundaries".  The first request of an address opens
  a window of \<open>windowMs\<close> milliseconds; a request that arrives when the window has
  ended opens a new one; every other request adds a hit to the open window.
\<close>

definition increment :: "store \<Rightarrow> jsstring \<Rightarrow> nat \<Rightarrow> nat \<times> nat" where
  "increment s key t =
     (case s key of
        None \<Rightarrow> (t + windowMs, 1)
      | Some (resetTime, totalHits) \<Rightarrow>
          if resetTime \<le> t then (t + windowMs, 1) else (resetTime, totalHits + 1))"

text \<open>
  Modelled from the spec: the middleware of the package \<^verbatim>\<open>express-rate-limit\<close> as
  mounted at line 35.  The spec: "at most 10 requests per 60-second window; once
  exceeded, respond immediately with a structured rate-limit error [...] without
  invoking downstream handlers".  A request outside the API namespace does not reach
  the middleware and goes on to the handlers; a request inside is counted, and goes on
  unless its window then holds more than \<open>max_requests\<close> hits.
\<close>

definition limiter :: "store \<Rightarrow> client_request \<Rightarrow> store \<times> verdict" where
  "limiter s r =
     (if \<not> in_api (pathname r) then (s, Next)
      else
        (let (resetTime, totalHits) = increment s (address r) (now r)
         in (s(address r \<mapsto> (resetTime, totalHits)),
             if max_requests < totalHits then Respond rate_limited_response else Next)))"

text \<open>
  Modelled from the spec: the server handling requests one after the other, each
  against the store that the one before left ("atomic-by-construction handler turns").
\<close>

fun serve :: "store \<Rightarrow> client_request list \<Rightarrow> verdict list" where
  "serve s [] = []"
| "serve s (r # rs) = (case limiter s r of (s', v) \<Rightarrow> v # serve s' rs)"

section \<open>Example inputs\<close>

text \<open>A raw format with no key at all; the examples set the keys they need.\<close>

definition empty_format :: raw_format where
  "empty_format =
     \<lparr> format_id = JUndefined, ext = JUndefined, resolution = JUndefined,
       format_note = JUndefined, height = JUndefined, vcodec = JUndefined,
       filesize = JUndefined, filesize_approx = JUndefined \<rparr>"

definition video_format :: "string \<Rightarrow> string \<Rightarrow> string \<Rightarrow> string \<Rightarrow> raw_format" where
  "video_format i e r v =
     empty_format\<lparr> format_id := JStr (str i), ext := JStr (str e),
       resolution := JStr (str r), vcodec := JStr (str v) \<rparr>"

text \<open>A tool that always resolves to the given metadata.\<close>

definition tool_returning :: "metadata \<Rightarrow> tool" where
  "tool_returning m args = Inr m"

definition metadata_of :: "jsval \<Rightarrow> raw_format list option \<Rightarrow> metadata" where
  "metadata_of t fs =
     \<lparr> title = t, thumbnail = JUndefined, uploader = JUndefined,
       duration_string = JUndefined, formats = fs \<rparr>"

definition request :: "string \<Rightarrow> string \<Rightarrow> query" where
  "request u f = \<lparr> url = Some (QStr (str u)), format = Some (QStr (str f)) \<rparr>"

text \<open>
  A format list as the tool reports it for a video: two progressive formats of the same
  resolution and container, a larger one, an audio track and a storyboard.
\<close>

definition sample_formats :: "raw_format list" where
  "sample_formats =
     [video_format ''18'' ''mp4'' ''640x360'' ''avc1'',
      video_format ''137'' ''mp4'' ''1920x1080'' ''avc1'',
      video_format ''140'' ''m4a'' ''audio only'' ''none'',
      video_format ''22'' ''mp4'' ''640x360'' ''avc1'',
      video_format ''sb0'' ''mhtml'' ''unknown'' ''avc1'']"

text \<open>A resolution that starts with a negative number, next to one with no number.\<close>

definition signed_formats :: "raw_format list" where
  "signed_formats =
     [video_format ''a'' ''mp4'' ''-1x1'' ''avc1'',
      video_format ''b'' ''mp4'' ''unknown'' ''avc1'']"

text \<open>
  Two raw formats with the same (resolution, extension) pair, the first of which the
  filter drops, and a video format whose pair is that of the synthetic MP3 entry.
\<close>

definition clashing_formats :: "raw_format list" where
  "clashing_formats =
     [video_format ''a'' ''mp4'' ''1280x720'' ''none'',
      video_format ''b'' ''mp4'' ''1280x720'' ''avc1'',
      video_format ''c'' ''mp3'' ''Audio Only'' ''avc1'']"

text \<open>Raw formats with sizes: an exact and an approximate one, an approximate one, none.\<close>

definition sized_formats :: "raw_format list" where
  "sized_formats =
     [(video_format ''18'' ''mp4'' ''640x360'' ''avc1'')
        \<lparr>filesize := JNum 1000, filesize_approx := JNum 1024\<rparr>,
      (video_format ''137'' ''mp4'' ''1920x1080'' ''avc1'')\<lparr>filesize_approx := JNum 5000\<rparr>,
      video_format ''22'' ''mp4'' ''1280x720'' ''avc1'']"

text \<open>Two raw formats with the same identifier, only the second with a size.\<close>

definition duplicate_id_formats :: "raw_format list" where
  "duplicate_id_formats =
     [video_format ''18'' ''mp4'' ''640x360'' ''avc1'',
      (video_format ''18'' ''mp4'' ''640x360'' ''avc1'')\<lparr>filesize := JNum 1000\<rparr>]"

text \<open>A raw format whose exact size is reported as zero.\<close>

definition zero_size_formats :: "raw_format list" where
  "zero_size_formats =
     [(video_format ''18'' ''mp4'' ''640x360'' ''avc1'')
        \<lparr>filesize := JNum 0, filesize_approx := JNum 500\<rparr>]"

text \<open>A tool that resolves to metadata with the given title and formats.\<close>

definition example_tool :: "string \<Rightarrow> raw_format list \<Rightarrow> tool" where
  "example_tool t fs = tool_returning (metadata_of (JStr (str t)) (Some fs))"

text \<open>Requests to \<^verbatim>\<open>/api/info\<close> from one address, five seconds apart.\<close>

definition burst :: "nat \<Rightarrow> client_request list" where
  "burst n =
     map (\<lambda>i. \<lparr> address = str ''203.0.113.7'', pathname = str ''/api/info'', now = 5000 * i \<rparr>)
       [0..<n]"

section \<open>Properties of the Format Selector\<close>

subsection \<open>\<^verbatim>\<open>findIndex\<close> and the first occurrence\<close>

lemma findIndex_from_find:
  "findIndex_from k P xs = int i \<Longrightarrow>
   k \<le> i \<and> i - k < length xs \<and> find P xs = Some (xs ! (i - k))"
proof (induction xs arbitrary: k)
  case Nil
  then show ?case by simp
next
  case (Cons x xs)
  show ?case
  proof (cases "P x")
    case True
    with Cons.prems show ?thesis by simp
  next
    case False
    with Cons.prems have "findIndex_from (Suc k) P xs = int i" by simp
    from Cons.IH [OF this]
    have "Suc k \<le> i" "i - Suc k < length xs" "find P xs = Some (xs ! (i - Suc k))"
      by auto
    moreover from \<open>Suc k \<le> i\<close> have "i - k = Suc (i - Suc k)" by simp
    ultimately show ?thesis using False by simp
  qed
qed

lemma find_findIndex_from:
  "find P xs = Some e \<Longrightarrow>
   \<exists>i < length xs. xs ! i = e \<and> findIndex_from k P xs = int (k + i)"
proof (induction xs arbitrary: k)
  case Nil
  then show ?case by simp
next
  case (Cons x xs)
  show ?case
  proof (cases "P x")
    case True
    with Cons.prems show ?thesis by auto
  next
    case False
    with Cons.prems have "find P xs = Some e" by simp
    from Cons.IH [OF this, of "Suc k"] obtain i
      where "i < length xs" "xs ! i = e" "findIndex_from (Suc k) P xs = int (Suc k + i)"
      by blast
    with False show ?thesis by (intro exI [of _ "Suc i"]) simp
  qed
qed

lemma find_Some_in_set: "find P xs = Some e \<Longrightarrow> e \<in> set xs"
  by (induction xs) (auto split: if_splits)

text \<open>An entry survives line 94 exactly when it is the first entry with its pair.\<close>

lemma in_dedup_iff:
  "e \<in> set (dedup xs) \<longleftrightarrow> find (same_pair e) xs = Some e"
proof
  assume "e \<in> set (dedup xs)"
  then obtain i where i: "i < length xs" "xs ! i = e" "findIndex (same_pair e) xs = int i"
    by (auto simp: dedup_def filter_indexed_def in_set_enumerate_eq)
  from findIndex_from_find [of 0 "same_pair e" xs i] i
  show "find (same_pair e) xs = Some e" by (simp add: findIndex_def)
next
  assume "find (same_pair e) xs = Some e"
  from find_findIndex_from [OF this, of 0]
  obtain i where "i < length xs" "xs ! i = e" "findIndex (same_pair e) xs = int i"
    by (auto simp: findIndex_def)
  then show "e \<in> set (dedup xs)"
    by (force simp: dedup_def filter_indexed_def in_set_enumerate_eq)
qed

lemma same_pair_pair_of: "same_pair v t \<longleftrightarrow> pair_of t = pair_of v"
  by (auto simp: same_pair_def pair_of_def)

lemma distinct_dedup: "distinct (map pair_of (dedup xs))"
proof -
  let ?Q = "\<lambda>(i, v). findIndex (same_pair v) xs = int i"
  let ?ys = "filter ?Q (enumerate 0 xs)"
  have d: "distinct ?ys" by (simp add: distinct_enumerate)
  have inj: "inj_on (pair_of \<circ> snd) (set ?ys)"
  proof (rule inj_onI)
    fix a b
    assume a: "a \<in> set ?ys" and b: "b \<in> set ?ys"
      and eq: "(pair_of \<circ> snd) a = (pair_of \<circ> snd) b"
    obtain i v where av: "a = (i, v)" by (cases a)
    obtain j w where bw: "b = (j, w)" by (cases b)
    from eq av bw have "same_pair v = same_pair w"
      by (auto simp: same_pair_pair_of fun_eq_iff)
    with a b av bw have "i = j" by auto
    moreover from a av have "v = xs ! i" by (auto simp: in_set_enumerate_eq)
    moreover from b bw have "w = xs ! j" by (auto simp: in_set_enumerate_eq)
    ultimately show "a = b" using av bw by simp
  qed
  have "distinct (map (pair_of \<circ> snd) ?ys)"
    using d inj by (simp add: distinct_map)
  then show ?thesis by (simp add: dedup_def filter_indexed_def)
qed

lemma find_same_pair_exists:
  assumes "x \<in> set xs"
  shows "\<exists>e. find (same_pair x) xs = Some e \<and> same_pair x e"
proof -
  have "same_pair x x" by (simp add: same_pair_def)
  with assms have "find (same_pair x) xs \<noteq> None" by (auto simp: find_None_iff)
  then obtain e where e: "find (same_pair x) xs = Some e" by auto
  then have "same_pair x e" by (auto simp: find_Some_iff)
  with e show ?thesis by blast
qed

lemma dedup_covers:
  assumes "x \<in> set xs"
  shows "\<exists>e \<in> set (dedup xs). same_pair x e"
proof -
  from find_same_pair_exists [OF assms] obtain e where
    e: "find (same_pair x) xs = Some e" "same_pair x e" by blast
  from e(2) have "same_pair e = same_pair x" by (auto simp: same_pair_def fun_eq_iff)
  with e(1) have "e \<in> set (dedup xs)" by (simp add: in_dedup_iff)
  with e(2) show ?thesis by blast
qed

subsection \<open>The sort is a stable rearrangement in key order\<close>

lemma mset_insort_cmp: "mset (insort_cmp cmp x ys) = add_mset x (mset ys)"
  by (induction ys) auto

lemma set_insort_cmp: "set (insort_cmp cmp x ys) = insert x (set ys)"
  using mset_insort_cmp [of cmp x ys] by (metis set_mset_add_mset_insert set_mset_mset)

lemma mset_js_sort: "mset (js_sort cmp xs) = mset xs"
  by (induction xs) (auto simp: js_sort_def mset_insort_cmp)

lemma set_js_sort: "set (js_sort cmp xs) = set xs"
  using mset_js_sort [of cmp xs] by (metis set_mset_mset)

lemma length_js_sort: "length (js_sort cmp xs) = length xs"
  using mset_js_sort [of cmp xs] by (metis size_mset)

lemma distinct_map_js_sort: "distinct (map f (js_sort cmp xs)) = distinct (map f xs)"
proof -
  have "mset (map f (js_sort cmp xs)) = mset (map f xs)" by (simp add: mset_js_sort)
  then show ?thesis by (rule mset_eq_imp_distinct_iff)
qed

lemma sorted_insort_cmp:
  "sorted_wrt (\<lambda>a b. resolution_key b \<le> resolution_key a) ys \<Longrightarrow>
   sorted_wrt (\<lambda>a b. resolution_key b \<le> resolution_key a) (insort_cmp compare_resolution x ys)"
proof (induction ys)
  case Nil
  then show ?case by simp
next
  case (Cons y ys)
  then show ?case
    by (auto simp: compare_resolution_def set_insort_cmp)
qed

lemma sorted_js_sort:
  "sorted_wrt (\<lambda>a b. resolution_key b \<le> resolution_key a) (js_sort compare_resolution xs)"
  by (induction xs) (auto simp: js_sort_def intro: sorted_insort_cmp)

subsection \<open>The video entries\<close>

lemma tl_format_selector: "tl (format_selector fs) = video_formats fs"
  by (simp add: format_selector_def)

lemma video_formats_subset:
  "set (video_formats fs) \<subseteq> set (dedup (map to_presented (filter video_filter fs)))"
  unfolding video_formats_def using set_take_subset [of 8] by (metis set_js_sort)

lemma video_formats_all:
  "length (dedup (map to_presented (filter video_filter fs))) \<le> 8 \<Longrightarrow>
   set (video_formats fs) = set (dedup (map to_presented (filter video_filter fs)))"
  by (simp add: video_formats_def length_js_sort set_js_sort)

lemma video_formats_origin:
  assumes "e \<in> set (video_formats fs)"
  shows "\<exists>f \<in> set fs. video_filter f \<and> e = to_presented f"
proof -
  from assms video_formats_subset [of fs]
  have "find (same_pair e) (map to_presented (filter video_filter fs)) = Some e"
    by (auto simp: in_dedup_iff)
  then have "e \<in> set (map to_presented (filter video_filter fs))"
    by (rule find_Some_in_set)
  then show ?thesis by auto
qed

lemma first_of_pair_presented:
  assumes "find (same_pair e) (map to_presented (filter video_filter fs)) = Some e"
    and "length (dedup (map to_presented (filter video_filter fs))) \<le> 8"
  shows "e \<in> set (video_formats fs)"
  using assms by (simp add: video_formats_all in_dedup_iff)

lemma set_dedup_subset: "set (dedup xs) \<subseteq> set xs"
  by (auto simp: in_dedup_iff dest: find_Some_in_set)

lemma length_dedup: "length (dedup xs) = card (pair_of ` set xs)"
proof -
  have "pair_of ` set (dedup xs) = pair_of ` set xs"
  proof
    show "pair_of ` set (dedup xs) \<subseteq> pair_of ` set xs"
      using set_dedup_subset [of xs] by auto
  next
    show "pair_of ` set xs \<subseteq> pair_of ` set (dedup xs)"
    proof
      fix p assume "p \<in> pair_of ` set xs"
      then obtain x where x: "x \<in> set xs" "p = pair_of x" by auto
      from dedup_covers [OF x(1)] obtain e where "e \<in> set (dedup xs)" "same_pair x e" by blast
      then have "e \<in> set (dedup xs)" "pair_of e = p"
        using x(2) by (simp_all add: same_pair_pair_of)
      then show "p \<in> pair_of ` set (dedup xs)" by blast
    qed
  qed
  moreover have "card (set (map pair_of (dedup xs))) = length (map pair_of (dedup xs))"
    using distinct_dedup [of xs] by (rule distinct_card)
  ultimately show ?thesis by simp
qed

lemma length_video_formats:
  "length (video_formats fs) =
     min 8 (card (pair_of ` set (map to_presented (filter video_filter fs))))"
  by (simp add: video_formats_def length_js_sort length_dedup min.commute)

lemma first_occurrence_kept:
  assumes "f \<in> set fs" and "video_filter f"
    and "length (dedup (map to_presented (filter video_filter fs))) \<le> 8"
  shows "\<exists>e \<in> set (video_formats fs).
     find (same_pair (to_presented f)) (map to_presented (filter video_filter fs)) = Some e"
proof -
  let ?xs = "map to_presented (filter video_filter fs)"
  from assms(1,2) have "to_presented f \<in> set ?xs" by simp
  from find_same_pair_exists [OF this] obtain e where
    e: "find (same_pair (to_presented f)) ?xs = Some e" "same_pair (to_presented f) e" by blast
  from e(2) have "same_pair e = same_pair (to_presented f)"
    by (auto simp: same_pair_def fun_eq_iff)
  with e(1) have "find (same_pair e) ?xs = Some e" by simp
  from first_of_pair_presented [OF this assms(3)] e(1) show ?thesis by blast
qed

lemma format_selector_single:
  "video_filter f \<Longrightarrow> format_selector [f] = [mp3_entry, to_presented f]"
  by (simp add: format_selector_def video_formats_def dedup_def filter_indexed_def
      findIndex_def same_pair_def js_sort_def)

subsection \<open>The selector on the example inputs\<close>

lemmas parse_eval =
  parseInt_def str_def is_space_def is_radix_digit_def digit_value_def radix_value_def

lemmas dedup_eval =
  dedup_def filter_indexed_def findIndex_def same_pair_def enumerate_eq_zip upt_rec
  to_presented_def video_format_def str_def

lemma parse_1920: "parseInt (JStr (str ''1920x1080'')) = Some 1920"
  by (simp add: parse_eval)

lemma parse_1280: "parseInt (JStr (str ''1280x720'')) = Some 1280"
  by (simp add: parse_eval)

lemma parse_640: "parseInt (JStr (str ''640x360'')) = Some 640"
  by (simp add: parse_eval)

lemma parse_unknown: "parseInt (JStr (str ''unknown'')) = None"
  by (simp add: parse_eval)

lemma parse_negative: "parseInt (JStr (str ''-1x1'')) = Some (- 1)"
  by (simp add: parse_eval)

lemma parse_audio_only: "parseInt (JStr (str ''Audio Only'')) = None"
  by (simp add: parse_eval)

lemma key_video_format:
  "resolution_key (to_presented (video_format i e r v)) =
     (case parseInt (JStr (str r)) of None \<Rightarrow> 0 | Some n \<Rightarrow> n)"
  by (simp add: resolution_key_def to_presented_def video_format_def split: option.splits)

lemmas sort_eval =
  js_sort_def compare_resolution_def key_video_format
  parse_1920 parse_1280 parse_640 parse_unknown parse_negative parse_audio_only

lemma sample_filtered:
  "filter video_filter sample_formats =
     [video_format ''18'' ''mp4'' ''640x360'' ''avc1'',
      video_format ''137'' ''mp4'' ''1920x1080'' ''avc1'',
      video_format ''22'' ''mp4'' ''640x360'' ''avc1'',
      video_format ''sb0'' ''mhtml'' ''unknown'' ''avc1'']"
  by (simp add: sample_formats_def video_filter_def video_format_def str_def)

lemma sample_dedup:
  "dedup (map to_presented (filter video_filter sample_formats)) =
     [to_presented (video_format ''18'' ''mp4'' ''640x360'' ''avc1''),
      to_presented (video_format ''137'' ''mp4'' ''1920x1080'' ''avc1''),
      to_presented (video_format ''sb0'' ''mhtml'' ''unknown'' ''avc1'')]"
  unfolding sample_filtered by (simp add: dedup_eval)

lemma sample_selector:
  "format_selector sample_formats =
     [mp3_entry,
      to_presented (video_format ''137'' ''mp4'' ''1920x1080'' ''avc1''),
      to_presented (video_format ''18'' ''mp4'' ''640x360'' ''avc1''),
      to_presented (video_format ''sb0'' ''mhtml'' ''unknown'' ''avc1'')]"
  unfolding format_selector_def video_formats_def sample_dedup
  by (simp add: sort_eval)

lemma signed_selector:
  "format_selector signed_formats =
     [mp3_entry,
      to_presented (video_format ''b'' ''mp4'' ''unknown'' ''avc1''),
      to_presented (video_format ''a'' ''mp4'' ''-1x1'' ''avc1'')]"
proof -
  have "filter video_filter signed_formats = signed_formats"
    by (simp add: signed_formats_def video_filter_def video_format_def str_def)
  moreover have "dedup (map to_presented signed_formats) = map to_presented signed_formats"
    by (simp add: signed_formats_def dedup_eval)
  ultimately show ?thesis
    by (simp add: format_selector_def video_formats_def) (simp add: signed_formats_def sort_eval)
qed

lemma clashing_selector:
  "format_selector clashing_formats =
     [mp3_entry,
      to_presented (video_format ''b'' ''mp4'' ''1280x720'' ''avc1''),
      to_presented (video_format ''c'' ''mp3'' ''Audio Only'' ''avc1'')]"
proof -
  have "filter video_filter clashing_formats =
      [video_format ''b'' ''mp4'' ''1280x720'' ''avc1'',
       video_format ''c'' ''mp3'' ''Audio Only'' ''avc1'']"
    by (simp add: clashing_formats_def video_filter_def video_format_def str_def)
  moreover have "dedup (map to_presented
      [video_format ''b'' ''mp4'' ''1280x720'' ''avc1'',
       video_format ''c'' ''mp3'' ''Audio Only'' ''avc1'']) =
      [to_presented (video_format ''b'' ''mp4'' ''1280x720'' ''avc1''),
       to_presented (video_format ''c'' ''mp3'' ''Audio Only'' ''avc1'')]"
    by (simp add: dedup_eval)
  ultimately show ?thesis
    by (simp add: format_selector_def video_formats_def sort_eval)
qed

subsection \<open>The claims about the Format Selector\<close>

text \<open>
  Claim C1.  For every raw format list the Format Selector returns at most 9 entries,
  the first of which is the synthetic MP3 entry, whose identifier is \<^verbatim>\<open>'mp3'\<close>;
  for the empty raw list the result is the MP3 entry alone.
\<close>

theorem format_selector_head_and_cap:
  "length (format_selector fs) \<le> 9
   \<and> format_selector fs \<noteq> []
   \<and> hd (format_selector fs) = mp3_entry
   \<and> p_format_id (hd (format_selector fs)) = JStr (str ''mp3'')
   \<and> format_selector [] = [mp3_entry]"
  by (simp add: format_selector_def video_formats_def mp3_entry_def dedup_def
      filter_indexed_def js_sort_def)

text \<open>
  Claim C2, as the code has it.  For every raw format list, the output without the
  prepended MP3 entry is ordered non-increasingly by the key
  \<^verbatim>\<open>parseInt(resolution) || 0\<close>, and a resolution with no numeric prefix has key zero.
  Such an entry therefore comes after every entry with a positive prefix; it is not
  always last, since \<^verbatim>\<open>parseInt\<close> reads a sign and an entry with a negative prefix
  has a smaller key.
\<close>

theorem video_formats_sorted:
  "sorted_wrt (\<lambda>a b. resolution_key b \<le> resolution_key a) (tl (format_selector fs))
   \<and> (\<forall>e. parseInt (p_resolution e) = None \<longrightarrow> resolution_key e = 0)"
proof
  show "sorted_wrt (\<lambda>a b. resolution_key b \<le> resolution_key a) (tl (format_selector fs))"
    unfolding tl_format_selector video_formats_def
    by (rule sorted_wrt_take) (rule sorted_js_sort)
next
  show "\<forall>e. parseInt (p_resolution e) = None \<longrightarrow> resolution_key e = 0"
    by (simp add: resolution_key_def)
qed

text \<open>
  On the sample list the video entries come out as 1920x1080, 640x360 and the
  storyboard, whose resolution has no numeric prefix and whose key is zero.
\<close>

theorem video_formats_sorted_witness:
  "sorted_wrt (\<lambda>a b. resolution_key b \<le> resolution_key a) (tl (format_selector sample_formats))
   \<and> map resolution_key (tl (format_selector sample_formats)) = [1920, 640, 0]
   \<and> map p_resolution (tl (format_selector sample_formats)) =
       [JStr (str ''1920x1080''), JStr (str ''640x360''), JStr (str ''unknown'')]
   \<and> parseInt (p_resolution (to_presented (video_format ''sb0'' ''mhtml'' ''unknown'' ''avc1''))) =
       None
   \<and> resolution_key (to_presented (video_format ''sb0'' ''mhtml'' ''unknown'' ''avc1'')) = 0"
proof -
  have "sorted_wrt (\<lambda>a b. resolution_key b \<le> resolution_key a)
      (tl (format_selector sample_formats))"
    using video_formats_sorted [of sample_formats] by (rule conjunct1)
  moreover have "map resolution_key (tl (format_selector sample_formats)) = [1920, 640, 0]"
    by (simp add: sample_selector sort_eval)
  moreover have "map p_resolution (tl (format_selector sample_formats)) =
       [JStr (str ''1920x1080''), JStr (str ''640x360''), JStr (str ''unknown'')]"
    by (simp add: sample_selector to_presented_def video_format_def)
  moreover have p:
    "parseInt (p_resolution (to_presented (video_format ''sb0'' ''mhtml'' ''unknown'' ''avc1''))) =
       None"
    by (simp add: to_presented_def video_format_def parse_unknown)
  moreover from video_formats_sorted [of sample_formats] p
  have "resolution_key (to_presented (video_format ''sb0'' ''mhtml'' ''unknown'' ''avc1'')) = 0"
    by blast
  ultimately show ?thesis by blast
qed

text \<open>
  The claim as stated fails where a resolution starts with a negative number: the
  entry with no numeric prefix is placed first, before the entry whose prefix is \<open>-1\<close>,
  so it does not sort last.
\<close>

theorem non_numeric_not_last_counterexample:
  "map p_resolution (tl (format_selector signed_formats)) =
     [JStr (str ''unknown''), JStr (str ''-1x1'')]
   \<and> parseInt (JStr (str ''unknown'')) = None
   \<and> parseInt (JStr (str ''-1x1'')) = Some (- 1)"
  by (simp add: signed_selector parse_unknown parse_negative to_presented_def video_format_def)

text \<open>
  Claim C3, as the code has it.  For every raw format list, the output after the
  prepended MP3 entry holds at most one entry for each (resolution, extension) pair.
  The entry kept for a pair is the first one with that pair, in input order, among the
  raw formats that pass the filter: every entry of the video list is such a first
  occurrence, and every raw format that passes the filter has the first occurrence of
  its pair in the video list unless the cap of 8 cuts the list.  The video list has as
  many entries as there are pairs among the filtered formats, up to 8.
\<close>

theorem video_formats_dedup:
  "distinct (map pair_of (tl (format_selector fs)))
   \<and> (\<forall>e \<in> set (tl (format_selector fs)).
        find (same_pair e) (map to_presented (filter video_filter fs)) = Some e)
   \<and> (\<forall>f \<in> set fs. video_filter f
        \<and> length (dedup (map to_presented (filter video_filter fs))) \<le> 8 \<longrightarrow>
        (\<exists>e \<in> set (tl (format_selector fs)).
           find (same_pair (to_presented f)) (map to_presented (filter video_filter fs)) = Some e))
   \<and> length (tl (format_selector fs)) =
       min 8 (card (pair_of ` set (map to_presented (filter video_filter fs))))"
proof (intro conjI)
  have "distinct (map pair_of
      (js_sort compare_resolution (dedup (map to_presented (filter video_filter fs)))))"
    by (simp add: distinct_map_js_sort distinct_dedup)
  then have "distinct (take 8 (map pair_of
      (js_sort compare_resolution (dedup (map to_presented (filter video_filter fs))))))"
    by (rule distinct_take)
  then show "distinct (map pair_of (tl (format_selector fs)))"
    by (simp add: tl_format_selector video_formats_def take_map)
next
  show "\<forall>e \<in> set (tl (format_selector fs)).
        find (same_pair e) (map to_presented (filter video_filter fs)) = Some e"
    using video_formats_subset [of fs] by (auto simp: tl_format_selector in_dedup_iff)
next
  show "\<forall>f \<in> set fs. video_filter f
        \<and> length (dedup (map to_presented (filter video_filter fs))) \<le> 8 \<longrightarrow>
        (\<exists>e \<in> set (tl (format_selector fs)).
           find (same_pair (to_presented f)) (map to_presented (filter video_filter fs)) = Some e)"
    using first_occurrence_kept [of _ fs] by (simp add: tl_format_selector)
next
  show "length (tl (format_selector fs)) =
       min 8 (card (pair_of ` set (map to_presented (filter video_filter fs))))"
    unfolding tl_format_selector by (rule length_video_formats)
qed

text \<open>
  On the sample list, formats 18 and 22 share the pair (640x360, mp4); the output
  holds the pair once, with the identifier of the earlier one, which is also the entry
  found for format 22.  Three pairs occur, and the video list has three entries.
\<close>

theorem video_formats_dedup_witness:
  "distinct (map pair_of (tl (format_selector sample_formats)))
   \<and> map p_format_id (tl (format_selector sample_formats)) =
       [JStr (str ''137''), JStr (str ''18''), JStr (str ''sb0'')]
   \<and> find (same_pair (to_presented (video_format ''18'' ''mp4'' ''640x360'' ''avc1'')))
        (map to_presented (filter video_filter sample_formats)) =
       Some (to_presented (video_format ''18'' ''mp4'' ''640x360'' ''avc1''))
   \<and> (\<exists>e \<in> set (tl (format_selector sample_formats)).
        find (same_pair (to_presented (video_format ''22'' ''mp4'' ''640x360'' ''avc1'')))
          (map to_presented (filter video_filter sample_formats)) = Some e)
   \<and> find (same_pair (to_presented (video_format ''22'' ''mp4'' ''640x360'' ''avc1'')))
        (map to_presented (filter video_filter sample_formats)) =
       Some (to_presented (video_format ''18'' ''mp4'' ''640x360'' ''avc1''))
   \<and> length (tl (format_selector sample_formats)) = 3"
proof -
  let ?f18 = "video_format ''18'' ''mp4'' ''640x360'' ''avc1''"
  let ?f22 = "video_format ''22'' ''mp4'' ''640x360'' ''avc1''"
  note inst = video_formats_dedup [of sample_formats]
  have "to_presented ?f18 \<in> set (tl (format_selector sample_formats))"
    by (simp add: sample_selector)
  with inst
  have 1: "distinct (map pair_of (tl (format_selector sample_formats)))"
    and 2: "find (same_pair (to_presented ?f18))
        (map to_presented (filter video_filter sample_formats)) = Some (to_presented ?f18)"
    by blast+
  have 3: "map p_format_id (tl (format_selector sample_formats)) =
       [JStr (str ''137''), JStr (str ''18''), JStr (str ''sb0'')]"
    by (simp add: sample_selector to_presented_def video_format_def)
  have in22: "?f22 \<in> set sample_formats" by (simp add: sample_formats_def)
  have vf22: "video_filter ?f22"
    by (simp add: video_filter_def video_format_def str_def)
  have len: "length (dedup (map to_presented (filter video_filter sample_formats))) \<le> 8"
    by (simp add: sample_dedup)
  from inst in22 vf22 len
  have 4: "\<exists>e \<in> set (tl (format_selector sample_formats)).
        find (same_pair (to_presented ?f22))
          (map to_presented (filter video_filter sample_formats)) = Some e"
    by blast
  have 5: "find (same_pair (to_presented ?f22))
        (map to_presented (filter video_filter sample_formats)) = Some (to_presented ?f18)"
    unfolding sample_filtered by (simp add: same_pair_def to_presented_def video_format_def)
  have 6: "length (tl (format_selector sample_formats)) = 3"
    by (simp add: sample_selector)
  from 1 2 3 4 5 6 show ?thesis by blast
qed


text \<open>
  The claim as stated fails on two counts.  The whole output, MP3 entry included, can
  hold a pair twice: a video format with resolution \<^verbatim>\<open>'Audio Only'\<close> and extension
  \<^verbatim>\<open>'mp3'\<close> passes the filter and has the pair of the MP3 entry.  And the entry kept
  for a pair need not be the first raw format with that pair: format \<open>a\<close> is the first
  with (1280x720, mp4), the filter drops it, and \<open>b\<close> is kept.
\<close>

theorem pair_twice_counterexample:
  "map p_format_id (format_selector clashing_formats) =
     [JStr (str ''mp3''), JStr (str ''b''), JStr (str ''c'')]
   \<and> map pair_of (format_selector clashing_formats) =
     [(JStr (str ''Audio Only''), JStr (str ''mp3'')),
      (JStr (str ''1280x720''), JStr (str ''mp4'')),
      (JStr (str ''Audio Only''), JStr (str ''mp3''))]
   \<and> \<not> distinct (map pair_of (format_selector clashing_formats))
   \<and> map (pair_of \<circ> to_presented) (take 2 clashing_formats) =
     [(JStr (str ''1280x720''), JStr (str ''mp4'')), (JStr (str ''1280x720''), JStr (str ''mp4''))]
   \<and> map format_id (take 2 clashing_formats) = [JStr (str ''a''), JStr (str ''b'')]"
  by (simp add: clashing_selector)
     (simp add: clashing_formats_def to_presented_def video_format_def empty_format_def
        pair_of_def mp3_entry_def)

text \<open>
  Claim C9, as the code has it.  Every entry of the video list is the projection of a
  raw format that has a video codec (its \<^verbatim>\<open>vcodec\<close> is not the tool's marker
  \<^verbatim>\<open>'none'\<close>) and whose resolution is not the literal string \<^verbatim>\<open>'audio only'\<close>, and
  no entry has resolution \<^verbatim>\<open>'audio only'\<close>.  Every raw format with no video codec or
  with resolution \<^verbatim>\<open>'audio only'\<close> is excluded: the output is the same with these
  formats removed from the input.  Not every other format is kept, since the later
  steps merge equal pairs and cap the list: when the cap of 8 does not cut the list, a
  raw format that passes the filter is in the video list exactly when it is the first
  with its (resolution, extension) pair among the passing formats, and its pair is in
  the video list in any case.
\<close>

theorem video_filter_exact:
  "(\<forall>e \<in> set (tl (format_selector fs)).
        \<exists>f \<in> set fs. vcodec f \<noteq> JStr (str ''none'') \<and> resolution f \<noteq> JStr (str ''audio only'')
          \<and> e = to_presented f)
   \<and> (\<forall>e \<in> set (tl (format_selector fs)). p_resolution e \<noteq> JStr (str ''audio only''))
   \<and> format_selector fs =
       format_selector
         (filter (\<lambda>f. vcodec f \<noteq> JStr (str ''none'') \<and> resolution f \<noteq> JStr (str ''audio only'')) fs)
   \<and> (\<forall>f \<in> set fs. vcodec f \<noteq> JStr (str ''none'') \<and> resolution f \<noteq> JStr (str ''audio only'')
        \<and> length (dedup (map to_presented (filter video_filter fs))) \<le> 8 \<longrightarrow>
        (to_presented f \<in> set (tl (format_selector fs)) \<longleftrightarrow>
           find (same_pair (to_presented f)) (map to_presented (filter video_filter fs)) =
             Some (to_presented f))
        \<and> (\<exists>e \<in> set (tl (format_selector fs)). same_pair (to_presented f) e))"
proof (intro conjI)
  show "\<forall>e \<in> set (tl (format_selector fs)).
        \<exists>f \<in> set fs. vcodec f \<noteq> JStr (str ''none'') \<and> resolution f \<noteq> JStr (str ''audio only'')
          \<and> e = to_presented f"
    using video_formats_origin [of _ fs]
    by (fastforce simp: tl_format_selector video_filter_def)
next
  show "\<forall>e \<in> set (tl (format_selector fs)). p_resolution e \<noteq> JStr (str ''audio only'')"
    using video_formats_origin [of _ fs]
    by (fastforce simp: tl_format_selector video_filter_def to_presented_def)
next
  have eq: "(\<lambda>f. vcodec f \<noteq> JStr (str ''none'') \<and> resolution f \<noteq> JStr (str ''audio only'')) =
      video_filter"
    by (simp add: fun_eq_iff video_filter_def)
  have "filter video_filter
      (filter (\<lambda>f. vcodec f \<noteq> JStr (str ''none'') \<and> resolution f \<noteq> JStr (str ''audio only'')) fs) =
      filter video_filter fs"
    unfolding eq by simp
  then show "format_selector fs =
       format_selector
         (filter (\<lambda>f. vcodec f \<noteq> JStr (str ''none'') \<and> resolution f \<noteq> JStr (str ''audio only'')) fs)"
    by (simp only: format_selector_def video_formats_def)
next
  show "\<forall>f \<in> set fs. vcodec f \<noteq> JStr (str ''none'') \<and> resolution f \<noteq> JStr (str ''audio only'')
        \<and> length (dedup (map to_presented (filter video_filter fs))) \<le> 8 \<longrightarrow>
        (to_presented f \<in> set (tl (format_selector fs)) \<longleftrightarrow>
           find (same_pair (to_presented f)) (map to_presented (filter video_filter fs)) =
             Some (to_presented f))
        \<and> (\<exists>e \<in> set (tl (format_selector fs)). same_pair (to_presented f) e)"
  proof (intro ballI impI)
    fix f
    assume f: "f \<in> set fs"
      and h: "vcodec f \<noteq> JStr (str ''none'') \<and> resolution f \<noteq> JStr (str ''audio only'')
        \<and> length (dedup (map to_presented (filter video_filter fs))) \<le> 8"
    let ?xs = "map to_presented (filter video_filter fs)"
    from h have len: "length (dedup ?xs) \<le> 8" by simp
    from f h have "to_presented f \<in> set ?xs" by (simp add: video_filter_def)
    from dedup_covers [OF this] obtain e where
      "e \<in> set (dedup ?xs)" "same_pair (to_presented f) e"
      by blast
    with len video_formats_all [of fs]
    have ex: "\<exists>e \<in> set (tl (format_selector fs)). same_pair (to_presented f) e"
      by (auto simp: tl_format_selector)
    have "to_presented f \<in> set (tl (format_selector fs)) \<longleftrightarrow>
           find (same_pair (to_presented f)) ?xs = Some (to_presented f)"
      using video_formats_all [OF len] by (simp add: tl_format_selector in_dedup_iff)
    with ex show "(to_presented f \<in> set (tl (format_selector fs)) \<longleftrightarrow>
           find (same_pair (to_presented f)) ?xs = Some (to_presented f))
        \<and> (\<exists>e \<in> set (tl (format_selector fs)). same_pair (to_presented f) e)"
      by blast
  qed
qed

text \<open>
  On the sample list the filter drops the audio track (format 140) and nothing else;
  format 137, whose codec is \<^verbatim>\<open>'avc1'\<close>, is the first with its pair and is in the
  video list, and format 22, which passes the filter, has its pair in the video list.
\<close>

theorem video_filter_exact_witness:
  "map format_id (filter video_filter sample_formats) =
     [JStr (str ''18''), JStr (str ''137''), JStr (str ''22''), JStr (str ''sb0'')]
   \<and> map vcodec sample_formats =
     [JStr (str ''avc1''), JStr (str ''avc1''), JStr (str ''none''), JStr (str ''avc1''),
      JStr (str ''avc1'')]
   \<and> to_presented (video_format ''137'' ''mp4'' ''1920x1080'' ''avc1'')
       \<in> set (tl (format_selector sample_formats))
   \<and> p_resolution (to_presented (video_format ''137'' ''mp4'' ''1920x1080'' ''avc1''))
       \<noteq> JStr (str ''audio only'')
   \<and> find (same_pair (to_presented (video_format ''137'' ''mp4'' ''1920x1080'' ''avc1'')))
        (map to_presented (filter video_filter sample_formats)) =
       Some (to_presented (video_format ''137'' ''mp4'' ''1920x1080'' ''avc1''))
   \<and> (\<exists>e \<in> set (tl (format_selector sample_formats)).
         same_pair (to_presented (video_format ''22'' ''mp4'' ''640x360'' ''avc1'')) e)"
proof -
  let ?f137 = "video_format ''137'' ''mp4'' ''1920x1080'' ''avc1''"
  let ?f22 = "video_format ''22'' ''mp4'' ''640x360'' ''avc1''"
  note inst = video_filter_exact [of sample_formats]
  have m: "to_presented ?f137 \<in> set (tl (format_selector sample_formats))"
    by (simp add: sample_selector)
  with inst have 1: "p_resolution (to_presented ?f137) \<noteq> JStr (str ''audio only'')"
    by blast
  have len: "length (dedup (map to_presented (filter video_filter sample_formats))) \<le> 8"
    by (simp add: sample_dedup)
  have in137: "?f137 \<in> set sample_formats" and in22: "?f22 \<in> set sample_formats"
    by (simp_all add: sample_formats_def)
  have p137: "vcodec ?f137 \<noteq> JStr (str ''none'')" "resolution ?f137 \<noteq> JStr (str ''audio only'')"
    and p22: "vcodec ?f22 \<noteq> JStr (str ''none'')" "resolution ?f22 \<noteq> JStr (str ''audio only'')"
    by (simp_all add: video_format_def str_def)
  from inst in137 p137 len m
  have 2: "find (same_pair (to_presented ?f137))
        (map to_presented (filter video_filter sample_formats)) = Some (to_presented ?f137)"
    by blast
  from inst in22 p22 len
  have 3: "\<exists>e \<in> set (tl (format_selector sample_formats)). same_pair (to_presented ?f22) e"
    by blast
  have 4: "map format_id (filter video_filter sample_formats) =
     [JStr (str ''18''), JStr (str ''137''), JStr (str ''22''), JStr (str ''sb0'')]"
    by (simp add: sample_filtered video_format_def)
  have 5: "map vcodec sample_formats =
     [JStr (str ''avc1''), JStr (str ''avc1''), JStr (str ''none''), JStr (str ''avc1''),
      JStr (str ''avc1'')]"
    by (simp add: sample_formats_def video_format_def)
  from 1 2 3 4 5 m show ?thesis by blast
qed

text \<open>
  The claim as stated fails: the kept entries are not exactly the inputs with a video
  codec and a resolution other than \<^verbatim>\<open>'audio only'\<close>.  Format 22 of the sample list
  has codec \<^verbatim>\<open>'avc1'\<close> and resolution \<^verbatim>\<open>'640x360'\<close> and passes the filter, and it is
  not in the output: format 18 before it has the same pair.
\<close>

theorem passing_format_dropped_counterexample:
  "video_format ''22'' ''mp4'' ''640x360'' ''avc1'' \<in> set sample_formats
   \<and> vcodec (video_format ''22'' ''mp4'' ''640x360'' ''avc1'') = JStr (str ''avc1'')
   \<and> resolution (video_format ''22'' ''mp4'' ''640x360'' ''avc1'') = JStr (str ''640x360'')
   \<and> video_filter (video_format ''22'' ''mp4'' ''640x360'' ''avc1'')
   \<and> to_presented (video_format ''22'' ''mp4'' ''640x360'' ''avc1'')
       \<notin> set (format_selector sample_formats)
   \<and> map p_format_id (format_selector sample_formats) =
       [JStr (str ''mp3''), JStr (str ''137''), JStr (str ''18''), JStr (str ''sb0'')]"
  by (simp add: sample_selector)
     (simp add: sample_formats_def video_filter_def to_presented_def video_format_def
        empty_format_def mp3_entry_def str_def)

text \<open>
  Claim C10.  A raw format that passes the filter and has no \<^verbatim>\<open>format_note\<close> (or a
  falsy one) gets as quality label the string conversion of its \<^verbatim>\<open>height\<close> field
  followed by \<^verbatim>\<open>'p'\<close>.  With the height absent too the label is \<^verbatim>\<open>'undefinedp'\<close>;
  nothing is raised, and the entry is presented like any other: a list of this one
  format yields the MP3 entry followed by its projection, and in any list the
  projection is in the output when it is the first with its pair among the filtered
  formats and the cap of 8 does not cut the list.
\<close>

theorem quality_label_fallback:
  assumes "video_filter f" and "\<not> truthy (format_note f)"
  shows "quality_label (to_presented f) = JStr (to_string (height f) @ str ''p'')
    \<and> (height f = JUndefined \<longrightarrow> quality_label (to_presented f) = JStr (str ''undefinedp''))
    \<and> format_selector [f] = [mp3_entry, to_presented f]
    \<and> (\<forall>fs. find (same_pair (to_presented f)) (map to_presented (filter video_filter fs)) =
               Some (to_presented f)
             \<and> length (dedup (map to_presented (filter video_filter fs))) \<le> 8 \<longrightarrow>
             to_presented f \<in> set (format_selector fs))"
proof (intro conjI)
  show "quality_label (to_presented f) = JStr (to_string (height f) @ str ''p'')"
    using assms(2) by (simp add: to_presented_def js_or_def js_plus_str_def)
  then show "height f = JUndefined \<longrightarrow> quality_label (to_presented f) = JStr (str ''undefinedp'')"
    by (simp add: str_def)
next
  show "format_selector [f] = [mp3_entry, to_presented f]"
    using assms(1) by (rule format_selector_single)
next
  show "\<forall>fs. find (same_pair (to_presented f)) (map to_presented (filter video_filter fs)) =
               Some (to_presented f)
             \<and> length (dedup (map to_presented (filter video_filter fs))) \<le> 8 \<longrightarrow>
             to_presented f \<in> set (format_selector fs)"
    using first_of_pair_presented [of "to_presented f"]
    by (auto simp: format_selector_def)
qed

text \<open>
  Format 18 of the sample has neither a note nor a height: its label is
  \<^verbatim>\<open>'undefinedp'\<close>, and it is in the output for the sample list.  With height 360
  the label is \<^verbatim>\<open>'360p'\<close>.
\<close>

theorem quality_label_fallback_witness:
  "video_filter (video_format ''18'' ''mp4'' ''640x360'' ''avc1'')
   \<and> format_note (video_format ''18'' ''mp4'' ''640x360'' ''avc1'') = JUndefined
   \<and> quality_label (to_presented (video_format ''18'' ''mp4'' ''640x360'' ''avc1'')) =
       JStr (str ''undefinedp'')
   \<and> quality_label (to_presented
        ((video_format ''18'' ''mp4'' ''640x360'' ''avc1'')\<lparr>height := JNum 360\<rparr>)) =
       JStr (str ''360p'')
   \<and> format_selector [video_format ''18'' ''mp4'' ''640x360'' ''avc1''] =
       [mp3_entry, to_presented (video_format ''18'' ''mp4'' ''640x360'' ''avc1'')]
   \<and> to_presented (video_format ''18'' ''mp4'' ''640x360'' ''avc1'')
       \<in> set (format_selector sample_formats)"
proof -
  let ?f = "video_format ''18'' ''mp4'' ''640x360'' ''avc1''"
  let ?h = "(video_format ''18'' ''mp4'' ''640x360'' ''avc1'')\<lparr>height := JNum 360\<rparr>"
  have vf: "video_filter ?f" "video_filter ?h"
    by (simp_all add: video_format_def empty_format_def video_filter_def str_def)
  have fn: "format_note ?f = JUndefined" "format_note ?h = JUndefined"
    by (simp_all add: video_format_def empty_format_def)
  have nt: "\<not> truthy (format_note ?f)" "\<not> truthy (format_note ?h)"
    by (simp_all add: fn)
  have hu: "height ?f = JUndefined" by (simp add: video_format_def empty_format_def)
  have first: "find (same_pair (to_presented ?f))
      (map to_presented (filter video_filter sample_formats)) = Some (to_presented ?f)"
    unfolding sample_filtered by (simp add: same_pair_def)
  have len: "length (dedup (map to_presented (filter video_filter sample_formats))) \<le> 8"
    by (simp add: sample_dedup)
  note a = quality_label_fallback [OF vf(1) nt(1)]
  note b = quality_label_fallback [OF vf(2) nt(2)]
  from a hu have 1: "quality_label (to_presented ?f) = JStr (str ''undefinedp'')" by blast
  from b have 2: "quality_label (to_presented ?h) = JStr (str ''360p'')"
    by (simp add: video_format_def empty_format_def str_def dec_nat.simps)
  from a have 3: "format_selector [?f] = [mp3_entry, to_presented ?f]" by blast
  from a first len have 4: "to_presented ?f \<in> set (format_selector sample_formats)" by blast
  from vf(1) fn(1) 1 2 3 4 show ?thesis by blast
qed

section \<open>Properties of the endpoints\<close>

subsection \<open>The shape of a download run\<close>

text \<open>
  When the streaming call is reached, everything before it went through: the URL was
  there, the fetch resolved, the title was a string and the format list was there.
\<close>

lemma api_download_streamed:
  assumes "ExecStream a \<in> set (api_download g q)"
  shows "\<exists>u md t fs. url q = Some u \<and> qv_truthy u \<and> g (info_args u) = Inr md
      \<and> title md = JStr t \<and> formats md = Some fs
      \<and> a = download_args u (format_or_best (format q))
      \<and> api_download g q =
          GetVideoInfo (info_args u)
          # SetHeader (str ''Content-Disposition'')
              (content_disposition (download_filename t (format_or_best (format q))))
          # (case content_length fs (format_or_best (format q)) of
               None \<Rightarrow> [] | Some v \<Rightarrow> [SetHeader (str ''Content-Length'') (to_string v)])
          @ [ExecStream a, Pipe]"
  using assms
  unfolding api_download_def stream_download_def prepare_failed_def Let_def
  by (auto split: option.splits sum.splits jsval.splits if_splits)

lemma api_download_disposition:
  assumes "SetHeader (str ''Content-Disposition'') v \<in> set (api_download g q)"
  shows "\<exists>u md t. url q = Some u \<and> g (info_args u) = Inr md \<and> title md = JStr t
      \<and> v = content_disposition (download_filename t (format_or_best (format q)))"
  using assms
  unfolding api_download_def stream_download_def prepare_failed_def Let_def
  by (auto simp: str_def split: option.splits sum.splits jsval.splits if_splits)

subsection \<open>The argument list\<close>

lemma not_sublist_mp3_flags:
  "fid \<noteq> QStr (str ''mp3'') \<Longrightarrow> \<not> sublist mp3_flags (download_args u fid)"
  by (simp add: download_args_def mp3_flags_def sublist_Cons_right prefix_Cons str_def)

lemma sublist_mp3_flags:
  "sublist mp3_flags (download_args u (QStr (str ''mp3'')))"
proof -
  have "download_args u (QStr (str ''mp3'')) =
      [u, QStr (str ''--user-agent''), QStr user_agent,
       QStr (str ''--no-check-certificates''),
       QStr (str ''--concurrent-fragments''), QStr (str ''5''),
       QStr (str ''--buffer-size''), QStr (str ''16K'')] @ mp3_flags"
    by (simp add: download_args_def)
  then show ?thesis by (simp only: sublist_append_leftI)
qed

subsection \<open>The file name\<close>

lemma strip_title_filter:
  "strip_title t = filter (\<lambda>c. is_word c \<or> is_space c \<or> c = 0x2D) t"
  by (simp add: strip_title_def stripped_def)

lemma strip_example: "strip_title (str ''Foo: Bar/Baz!'') = str ''Foo BarBaz''"
  by (simp add: strip_title_def stripped_def is_word_def is_space_def str_def)

subsection \<open>The size hint\<close>

lemma content_length_Some_iff:
  "(\<exists>v. content_length fs fid = Some v) \<longleftrightarrow>
   (\<exists>tf. find (\<lambda>f. strict_eq (format_id f) fid) fs = Some tf
      \<and> (truthy (filesize tf) \<or> truthy (filesize_approx tf)))"
  by (auto simp: content_length_def js_or_def split: option.splits)

lemma content_length_value:
  "content_length fs fid = Some v \<Longrightarrow>
   \<exists>tf. find (\<lambda>f. strict_eq (format_id f) fid) fs = Some tf
      \<and> v = (if truthy (filesize tf) then filesize tf else filesize_approx tf)"
  by (auto simp: content_length_def js_or_def split: option.splits if_splits)

subsection \<open>Download runs on the example inputs\<close>

lemmas download_eval =
  api_download_def stream_download_def request_def example_tool_def tool_returning_def
  metadata_of_def format_or_best_def download_filename_def strip_title_def stripped_def
  is_word_def is_space_def content_length_def video_format_def empty_format_def
  valid_header_value_def content_disposition_def js_or_def str_def dec_nat.simps

lemma run_mp3:
  "api_download (example_tool ''Foo: Bar/Baz!'' sized_formats)
     (request ''https://example.com/v'' ''mp3'') =
     [GetVideoInfo (info_args (QStr (str ''https://example.com/v''))),
      SetHeader (str ''Content-Disposition'') (content_disposition (str ''Foo BarBaz.mp3'')),
      ExecStream (download_args (QStr (str ''https://example.com/v'')) (QStr (str ''mp3''))),
      Pipe]"
  by (simp add: sized_formats_def download_eval)

lemma run_137:
  "api_download (example_tool ''Foo: Bar/Baz!'' sized_formats)
     (request ''https://example.com/v'' ''137'') =
     [GetVideoInfo (info_args (QStr (str ''https://example.com/v''))),
      SetHeader (str ''Content-Disposition'') (content_disposition (str ''Foo BarBaz.mp4'')),
      SetHeader (str ''Content-Length'') (str ''5000''),
      ExecStream (download_args (QStr (str ''https://example.com/v'')) (QStr (str ''137''))),
      Pipe]"
  by (simp add: sized_formats_def download_eval)

lemma run_18:
  "api_download (example_tool ''Foo: Bar/Baz!'' sized_formats)
     (request ''https://example.com/v'' ''18'') =
     [GetVideoInfo (info_args (QStr (str ''https://example.com/v''))),
      SetHeader (str ''Content-Disposition'') (content_disposition (str ''Foo BarBaz.mp4'')),
      SetHeader (str ''Content-Length'') (str ''1000''),
      ExecStream (download_args (QStr (str ''https://example.com/v'')) (QStr (str ''18''))),
      Pipe]"
  by (simp add: sized_formats_def download_eval)

lemma run_duplicate:
  "api_download (example_tool ''clip'' duplicate_id_formats)
     (request ''https://example.com/v'' ''18'') =
     [GetVideoInfo (info_args (QStr (str ''https://example.com/v''))),
      SetHeader (str ''Content-Disposition'') (content_disposition (str ''clip.mp4'')),
      ExecStream (download_args (QStr (str ''https://example.com/v'')) (QStr (str ''18''))),
      Pipe]"
  by (simp add: duplicate_id_formats_def download_eval)

lemma run_zero:
  "api_download (example_tool ''clip'' zero_size_formats)
     (request ''https://example.com/v'' ''18'') =
     [GetVideoInfo (info_args (QStr (str ''https://example.com/v''))),
      SetHeader (str ''Content-Disposition'') (content_disposition (str ''clip.mp4'')),
      SetHeader (str ''Content-Length'') (str ''500''),
      ExecStream (download_args (QStr (str ''https://example.com/v'')) (QStr (str ''18''))),
      Pipe]"
  by (simp add: zero_size_formats_def download_eval)

subsection \<open>The claims about the endpoints\<close>

text \<open>
  Claim C4, as the code has it.  For every title and requested format, the download
  file name is the title with every code unit other than a word character, white
  space or a hyphen removed, followed by \<^verbatim>\<open>'.mp3'\<close> exactly when the requested format
  is the literal string \<^verbatim>\<open>'mp3'\<close> and by \<^verbatim>\<open>'.mp4'\<close> for any other value.  Removed
  characters leave nothing behind: the title \<^verbatim>\<open>'Foo: Bar/Baz!'\<close> yields the base name
  \<^verbatim>\<open>'Foo BarBaz'\<close>.  Whenever the handler sets the Content-Disposition header, its
  value names this file.
\<close>

theorem download_filename_shape:
  "download_filename t fid =
     filter (\<lambda>c. is_word c \<or> is_space c \<or> c = 0x2D) t
     @ (if fid = QStr (str ''mp3'') then str ''.mp3'' else str ''.mp4'')
   \<and> strip_title (str ''Foo: Bar/Baz!'') = str ''Foo BarBaz''
   \<and> (\<forall>v. SetHeader (str ''Content-Disposition'') v \<in> set (api_download g q) \<longrightarrow>
        (\<exists>u md t'. url q = Some u \<and> g (info_args u) = Inr md \<and> title md = JStr t'
           \<and> v = content_disposition (download_filename t' (format_or_best (format q)))))"
proof (intro conjI)
  show "download_filename t fid =
     filter (\<lambda>c. is_word c \<or> is_space c \<or> c = 0x2D) t
     @ (if fid = QStr (str ''mp3'') then str ''.mp3'' else str ''.mp4'')"
    by (simp add: download_filename_def strip_title_filter str_def)
next
  show "strip_title (str ''Foo: Bar/Baz!'') = str ''Foo BarBaz''"
    by (rule strip_example)
next
  show "\<forall>v. SetHeader (str ''Content-Disposition'') v \<in> set (api_download g q) \<longrightarrow>
        (\<exists>u md t'. url q = Some u \<and> g (info_args u) = Inr md \<and> title md = JStr t'
           \<and> v = content_disposition (download_filename t' (format_or_best (format q))))"
    using api_download_disposition [of _ g q] by blast
qed

text \<open>
  A request for \<^verbatim>\<open>mp3\<close> of a video titled \<^verbatim>\<open>'Foo: Bar/Baz!'\<close> is served as
  \<^verbatim>\<open>'Foo BarBaz.mp3'\<close>; a request for format 137 would be \<^verbatim>\<open>'Foo BarBaz.mp4'\<close>.
\<close>

theorem download_filename_shape_witness:
  "download_filename (str ''Foo: Bar/Baz!'') (QStr (str ''mp3'')) = str ''Foo BarBaz.mp3''
   \<and> download_filename (str ''Foo: Bar/Baz!'') (QStr (str ''137'')) = str ''Foo BarBaz.mp4''
   \<and> SetHeader (str ''Content-Disposition'') (content_disposition (str ''Foo BarBaz.mp3''))
       \<in> set (api_download (example_tool ''Foo: Bar/Baz!'' sized_formats)
                (request ''https://example.com/v'' ''mp3''))
   \<and> (\<exists>t. title (metadata_of (JStr (str ''Foo: Bar/Baz!'')) (Some sized_formats)) = JStr t
         \<and> content_disposition (str ''Foo BarBaz.mp3'') =
             content_disposition (download_filename t (QStr (str ''mp3''))))"
proof -
  let ?g = "example_tool ''Foo: Bar/Baz!'' sized_formats"
  let ?q = "request ''https://example.com/v'' ''mp3''"
  note shape = download_filename_shape [of "str ''Foo: Bar/Baz!''" "QStr (str ''mp3'')" ?g ?q]
  have 1: "download_filename (str ''Foo: Bar/Baz!'') (QStr (str ''mp3'')) = str ''Foo BarBaz.mp3''"
    using shape by (simp add: is_word_def is_space_def str_def)
  have 2: "download_filename (str ''Foo: Bar/Baz!'') (QStr (str ''137'')) = str ''Foo BarBaz.mp4''"
    by (simp add: download_filename_def strip_example) (simp add: str_def)
  have 3: "SetHeader (str ''Content-Disposition'') (content_disposition (str ''Foo BarBaz.mp3''))
      \<in> set (api_download ?g ?q)"
    by (simp add: run_mp3)
  have f: "format_or_best (format ?q) = QStr (str ''mp3'')"
    by (simp add: format_or_best_def request_def str_def)
  from shape 3 obtain u md t where
    "?g (info_args u) = Inr md" "title md = JStr t"
    "content_disposition (str ''Foo BarBaz.mp3'') =
       content_disposition (download_filename t (format_or_best (format ?q)))"
    by blast
  then have 4: "\<exists>t. title (metadata_of (JStr (str ''Foo: Bar/Baz!'')) (Some sized_formats)) = JStr t
         \<and> content_disposition (str ''Foo BarBaz.mp3'') =
             content_disposition (download_filename t (QStr (str ''mp3'')))"
    by (auto simp: f example_tool_def tool_returning_def)
  from 1 2 3 4 show ?thesis by blast
qed

text \<open>
  The example of the claim as stated is wrong: the base name of \<^verbatim>\<open>'Foo: Bar/Baz!'\<close>
  is not \<^verbatim>\<open>'Foo Bar Baz'\<close>, since the slash is removed, not replaced by a space.
\<close>

theorem filename_example_counterexample:
  "strip_title (str ''Foo: Bar/Baz!'') = str ''Foo BarBaz''
   \<and> strip_title (str ''Foo: Bar/Baz!'') \<noteq> str ''Foo Bar Baz''
   \<and> download_filename (str ''Foo: Bar/Baz!'') (QStr (str ''mp3'')) \<noteq> str ''Foo Bar Baz.mp3''"
  by (simp add: download_filename_def strip_title_def stripped_def is_word_def is_space_def
      str_def)

text \<open>
  Claim C5.  For every download request that reaches the streaming call, the argument
  list contains the extract-audio flags \<^verbatim>\<open>-x --audio-format mp3 --audio-quality 0\<close>
  exactly when the requested format is \<^verbatim>\<open>'mp3'\<close>.  Otherwise it ends with \<^verbatim>\<open>-f\<close> and
  a selector: \<^verbatim>\<open>'bestvideo+bestaudio/best'\<close> when the requested format is the
  \<^verbatim>\<open>'best'\<close> sentinel, which is also what an absent format parameter defaults to, and
  the requested identifier followed by \<^verbatim>\<open>'+bestaudio/best'\<close> for any other.
\<close>

theorem download_args_by_format:
  assumes "ExecStream args \<in> set (api_download g req)"
  shows "(sublist mp3_flags args \<longleftrightarrow> format_or_best (format req) = QStr (str ''mp3''))
   \<and> (format_or_best (format req) = QStr (str ''best'') \<longrightarrow>
        suffix [QStr (str ''-f''), QStr (str ''bestvideo+bestaudio/best'')] args)
   \<and> (format_or_best (format req) \<noteq> QStr (str ''mp3'')
        \<and> format_or_best (format req) \<noteq> QStr (str ''best'') \<longrightarrow>
        suffix [QStr (str ''-f''),
                QStr (qv_to_string (format_or_best (format req)) @ str ''+bestaudio/best'')] args)
   \<and> (format req = None \<longrightarrow> format_or_best (format req) = QStr (str ''best''))"
proof -
  from api_download_streamed [OF assms] obtain u
    where a: "args = download_args u (format_or_best (format req))" by blast
  let ?fid = "format_or_best (format req)"
  have 1: "sublist mp3_flags args \<longleftrightarrow> ?fid = QStr (str ''mp3'')"
    unfolding a using not_sublist_mp3_flags [of ?fid u] sublist_mp3_flags [of u] by auto
  have ne: "QStr (str ''best'') \<noteq> QStr (str ''mp3'')" by (simp add: str_def)
  have 2: "?fid = QStr (str ''best'') \<longrightarrow>
        suffix [QStr (str ''-f''), QStr (str ''bestvideo+bestaudio/best'')] args"
    unfolding a using ne by (auto simp: download_args_def format_expr_def suffix_def)
  have 3: "?fid \<noteq> QStr (str ''mp3'') \<and> ?fid \<noteq> QStr (str ''best'') \<longrightarrow>
        suffix [QStr (str ''-f''), QStr (qv_to_string ?fid @ str ''+bestaudio/best'')] args"
    unfolding a by (auto simp: download_args_def format_expr_def suffix_def)
  have 4: "format req = None \<longrightarrow> ?fid = QStr (str ''best'')"
    by (simp add: format_or_best_def)
  from 1 2 3 4 show ?thesis by blast
qed

text \<open>
  A request for format 18 is streamed with \<^verbatim>\<open>-f 18+bestaudio/best\<close> and without the
  extract-audio flags; a request for \<^verbatim>\<open>mp3\<close> is streamed with them.
\<close>

theorem download_args_by_format_witness:
  "ExecStream (download_args (QStr (str ''https://example.com/v'')) (QStr (str ''18'')))
     \<in> set (api_download (example_tool ''Foo: Bar/Baz!'' sized_formats)
              (request ''https://example.com/v'' ''18''))
   \<and> \<not> sublist mp3_flags
        (download_args (QStr (str ''https://example.com/v'')) (QStr (str ''18'')))
   \<and> suffix [QStr (str ''-f''), QStr (str ''18+bestaudio/best'')]
        (download_args (QStr (str ''https://example.com/v'')) (QStr (str ''18'')))
   \<and> ExecStream (download_args (QStr (str ''https://example.com/v'')) (QStr (str ''mp3'')))
     \<in> set (api_download (example_tool ''Foo: Bar/Baz!'' sized_formats)
              (request ''https://example.com/v'' ''mp3''))
   \<and> sublist mp3_flags
        (download_args (QStr (str ''https://example.com/v'')) (QStr (str ''mp3'')))"
proof -
  let ?u = "QStr (str ''https://example.com/v'')"
  let ?g = "example_tool ''Foo: Bar/Baz!'' sized_formats"
  have m18: "ExecStream (download_args ?u (QStr (str ''18'')))
      \<in> set (api_download ?g (request ''https://example.com/v'' ''18''))"
    by (simp add: run_18)
  have mmp3: "ExecStream (download_args ?u (QStr (str ''mp3'')))
      \<in> set (api_download ?g (request ''https://example.com/v'' ''mp3''))"
    by (simp add: run_mp3)
  have f18: "format_or_best (format (request ''https://example.com/v'' ''18'')) =
      QStr (str ''18'')"
    by (simp add: format_or_best_def request_def str_def)
  have fmp3: "format_or_best (format (request ''https://example.com/v'' ''mp3'')) =
      QStr (str ''mp3'')"
    by (simp add: format_or_best_def request_def str_def)
  have ne: "QStr (str ''18'') \<noteq> QStr (str ''mp3'')" "QStr (str ''18'') \<noteq> QStr (str ''best'')"
    by (simp_all add: str_def)
  have cat: "str ''18'' @ str ''+bestaudio/best'' = str ''18+bestaudio/best''"
    by (simp add: str_def)
  from download_args_by_format [OF m18] f18 ne cat
  have "\<not> sublist mp3_flags (download_args ?u (QStr (str ''18'')))"
    and "suffix [QStr (str ''-f''), QStr (str ''18+bestaudio/best'')]
      (download_args ?u (QStr (str ''18'')))"
    by simp_all
  moreover from download_args_by_format [OF mmp3] fmp3
  have "sublist mp3_flags (download_args ?u (QStr (str ''mp3'')))" by simp
  ultimately show ?thesis using m18 mmp3 by blast
qed

text \<open>
  Claim C7.  A request to \<^verbatim>\<open>/api/info\<close> with no \<^verbatim>\<open>url\<close> parameter is answered with
  status 400 and the body \<^verbatim>\<open>{error: 'URL is required'}\<close>, and the tool is not invoked:
  the run holds no metadata fetch and no streaming call.
\<close>

theorem api_info_missing_url:
  assumes "url req = None"
  shows "api_info g req = [Status 400, SendJson (ErrorBody (str ''URL is required''))]
    \<and> (\<forall>a. GetVideoInfo a \<notin> set (api_info g req))
    \<and> (\<forall>a. ExecStream a \<notin> set (api_info g req))"
  using assms by (simp add: api_info_def)

text \<open>A request with no parameter at all, against a tool that would have answered.\<close>

theorem api_info_missing_url_witness:
  "url \<lparr>url = None, format = None\<rparr> = None
   \<and> api_info (example_tool ''clip'' sample_formats) \<lparr>url = None, format = None\<rparr> =
       [Status 400, SendJson (ErrorBody (str ''URL is required''))]"
  using api_info_missing_url
    [of "\<lparr>url = None, format = None\<rparr>" "example_tool ''clip'' sample_formats"]
  by simp

text \<open>
  Claim C8, as the code has it.  For every download request that reaches the streaming
  call, a Content-Length header is set if and only if the first raw format whose
  \<^verbatim>\<open>format_id\<close> is strictly equal to the requested identifier exists and has a truthy
  \<^verbatim>\<open>filesize\<close> or \<^verbatim>\<open>filesize_approx\<close> (a size that is not zero).  When set, its value
  is the string form of \<^verbatim>\<open>filesize\<close> if that is truthy and of \<^verbatim>\<open>filesize_approx\<close>
  otherwise, and the header is set right before the streaming call.
\<close>

theorem content_length_hint:
  assumes "ExecStream args \<in> set (api_download g req)"
    and "url req = Some u" and "g (info_args u) = Inr md"
  shows "\<exists>fs. formats md = Some fs
    \<and> ((\<exists>v. SetHeader (str ''Content-Length'') v \<in> set (api_download g req)) \<longleftrightarrow>
        (\<exists>tf. find (\<lambda>f. strict_eq (format_id f) (format_or_best (format req))) fs = Some tf
           \<and> (truthy (filesize tf) \<or> truthy (filesize_approx tf))))
    \<and> (\<forall>v. SetHeader (str ''Content-Length'') v \<in> set (api_download g req) \<longrightarrow>
        (\<exists>tf. find (\<lambda>f. strict_eq (format_id f) (format_or_best (format req))) fs = Some tf
           \<and> v = to_string (if truthy (filesize tf) then filesize tf else filesize_approx tf))
        \<and> suffix [SetHeader (str ''Content-Length'') v, ExecStream args, Pipe]
             (api_download g req))"
proof -
  let ?fid = "format_or_best (format req)"
  let ?CL = "str ''Content-Length''"
  from api_download_streamed [OF assms(1)] assms(2,3) obtain t fs where
    fs: "formats md = Some fs" and
    run: "api_download g req =
          GetVideoInfo (info_args u)
          # SetHeader (str ''Content-Disposition'')
              (content_disposition (download_filename t ?fid))
          # (case content_length fs ?fid of
               None \<Rightarrow> [] | Some v \<Rightarrow> [SetHeader ?CL (to_string v)])
          @ [ExecStream args, Pipe]"
    by auto
  have ne: "str ''Content-Disposition'' \<noteq> ?CL" by (simp add: str_def)
  have mem: "\<And>v. SetHeader ?CL v \<in> set (api_download g req) \<longleftrightarrow>
      (\<exists>w. content_length fs ?fid = Some w \<and> v = to_string w)"
    unfolding run using ne by (cases "content_length fs ?fid") auto
  have A: "(\<exists>v. SetHeader ?CL v \<in> set (api_download g req)) \<longleftrightarrow>
        (\<exists>tf. find (\<lambda>f. strict_eq (format_id f) ?fid) fs = Some tf
           \<and> (truthy (filesize tf) \<or> truthy (filesize_approx tf)))"
    using mem content_length_Some_iff [of fs ?fid] by auto
  have B: "\<forall>v. SetHeader ?CL v \<in> set (api_download g req) \<longrightarrow>
        (\<exists>tf. find (\<lambda>f. strict_eq (format_id f) ?fid) fs = Some tf
           \<and> v = to_string (if truthy (filesize tf) then filesize tf else filesize_approx tf))
        \<and> suffix [SetHeader ?CL v, ExecStream args, Pipe] (api_download g req)"
  proof (intro allI impI)
    fix v
    assume "SetHeader ?CL v \<in> set (api_download g req)"
    with mem obtain w where w: "content_length fs ?fid = Some w" "v = to_string w" by auto
    from content_length_value [OF w(1)] w(2)
    have "\<exists>tf. find (\<lambda>f. strict_eq (format_id f) ?fid) fs = Some tf
           \<and> v = to_string (if truthy (filesize tf) then filesize tf else filesize_approx tf)"
      by auto
    moreover have "suffix [SetHeader ?CL v, ExecStream args, Pipe] (api_download g req)"
      unfolding run using w by (simp add: suffix_def)
    ultimately show "(\<exists>tf. find (\<lambda>f. strict_eq (format_id f) ?fid) fs = Some tf
           \<and> v = to_string (if truthy (filesize tf) then filesize tf else filesize_approx tf))
        \<and> suffix [SetHeader ?CL v, ExecStream args, Pipe] (api_download g req)"
      by blast
  qed
  from fs A B show ?thesis by blast
qed

text \<open>
  Format 137 of the sized sample has only an approximate size, 5000: the header is set
  to it, right before the streaming call.
\<close>

theorem content_length_hint_witness:
  "api_download (example_tool ''Foo: Bar/Baz!'' sized_formats)
     (request ''https://example.com/v'' ''137'') =
     [GetVideoInfo (info_args (QStr (str ''https://example.com/v''))),
      SetHeader (str ''Content-Disposition'') (content_disposition (str ''Foo BarBaz.mp4'')),
      SetHeader (str ''Content-Length'') (str ''5000''),
      ExecStream (download_args (QStr (str ''https://example.com/v'')) (QStr (str ''137''))),
      Pipe]
   \<and> (\<exists>tf. find (\<lambda>f. strict_eq (format_id f) (QStr (str ''137''))) sized_formats = Some tf
         \<and> filesize tf = JUndefined \<and> filesize_approx tf = JNum 5000)"
proof -
  let ?u = "QStr (str ''https://example.com/v'')"
  let ?g = "example_tool ''Foo: Bar/Baz!'' sized_formats"
  let ?q = "request ''https://example.com/v'' ''137''"
  have m: "ExecStream (download_args ?u (QStr (str ''137''))) \<in> set (api_download ?g ?q)"
    by (simp add: run_137)
  have u: "url ?q = Some ?u" by (simp add: request_def)
  have g: "?g (info_args ?u) =
      Inr (metadata_of (JStr (str ''Foo: Bar/Baz!'')) (Some sized_formats))"
    by (simp add: example_tool_def tool_returning_def)
  have f: "format_or_best (format ?q) = QStr (str ''137'')"
    by (simp add: format_or_best_def request_def str_def)
  have h: "SetHeader (str ''Content-Length'') (str ''5000'') \<in> set (api_download ?g ?q)"
    by (simp add: run_137)
  from content_length_hint [OF m u g] h
  obtain tf where
    tf: "find (\<lambda>f. strict_eq (format_id f) (QStr (str ''137''))) sized_formats = Some tf"
    by (auto simp: metadata_of_def f)
  then have "filesize tf = JUndefined \<and> filesize_approx tf = JNum 5000"
    by (auto simp: sized_formats_def video_format_def empty_format_def str_def)
  with tf show ?thesis by (simp add: run_137)
qed

text \<open>
  The claim as stated fails on two counts.  With two raw formats of identifier 18, of
  which only the second has a size, the requested identifier equals the
  \<^verbatim>\<open>format_id\<close> of an entry that carries an exact size, and no Content-Length header
  is set: only the first match is looked at.  And with an exact size of zero next to
  an approximate size of 500, the header is set to 500, not to the exact size.
\<close>

theorem first_match_only_counterexample:
  "api_download (example_tool ''clip'' duplicate_id_formats)
     (request ''https://example.com/v'' ''18'') =
     [GetVideoInfo (info_args (QStr (str ''https://example.com/v''))),
      SetHeader (str ''Content-Disposition'') (content_disposition (str ''clip.mp4'')),
      ExecStream (download_args (QStr (str ''https://example.com/v'')) (QStr (str ''18''))),
      Pipe]
   \<and> map format_id duplicate_id_formats = [JStr (str ''18''), JStr (str ''18'')]
   \<and> map filesize duplicate_id_formats = [JUndefined, JNum 1000]
   \<and> api_download (example_tool ''clip'' zero_size_formats)
       (request ''https://example.com/v'' ''18'') =
     [GetVideoInfo (info_args (QStr (str ''https://example.com/v''))),
      SetHeader (str ''Content-Disposition'') (content_disposition (str ''clip.mp4'')),
      SetHeader (str ''Content-Length'') (str ''500''),
      ExecStream (download_args (QStr (str ''https://example.com/v'')) (QStr (str ''18''))),
      Pipe]
   \<and> map filesize zero_size_formats = [JNum 0]
   \<and> map filesize_approx zero_size_formats = [JNum 500]"
  by (simp add: run_duplicate run_zero)
     (simp add: duplicate_id_formats_def zero_size_formats_def video_format_def
        empty_format_def)

section \<open>Properties of the rate limiter\<close>

subsection \<open>Windows and independence\<close>

lemma serve_open_window:
  assumes "s a = Some (R, h)" and "0 < h"
    and "\<forall>r \<in> set rs. address r = a \<and> in_api (pathname r) \<and> now r < R"
  shows "serve s rs =
     replicate (min (max_requests - h) (length rs)) Next
     @ replicate (length rs - (max_requests - h)) (Respond rate_limited_response)"
  using assms
proof (induction rs arbitrary: s h)
  case Nil
  then show ?case by simp
next
  case (Cons r rs)
  from Cons.prems have r: "address r = a" "in_api (pathname r)" "now r < R" by auto
  let ?s' = "s(a \<mapsto> (R, Suc h))"
  have step: "limiter s r =
      (?s', if max_requests < Suc h then Respond rate_limited_response else Next)"
    using r Cons.prems(1) by (simp add: limiter_def increment_def)
  have "serve ?s' rs =
     replicate (min (max_requests - Suc h) (length rs)) Next
     @ replicate (length rs - (max_requests - Suc h)) (Respond rate_limited_response)"
    using Cons.prems(3) by (intro Cons.IH) auto
  with step show ?case
    by (cases "max_requests < Suc h")
       (auto simp: min_def Suc_diff_le replicate_app_Cons_same Suc_diff_Suc not_less
          simp flip: replicate_Suc)
qed

lemma limiter_outside: "\<not> in_api (pathname r) \<Longrightarrow> limiter s r = (s, Next)"
  by (simp add: limiter_def)

lemma limiter_cong:
  assumes "s (address r) = s' (address r)"
  shows "snd (limiter s r) = snd (limiter s' r)
    \<and> fst (limiter s r) (address r) = fst (limiter s' r) (address r)"
  using assms by (simp add: limiter_def increment_def split: option.splits prod.splits)

lemma limiter_other:
  "address r \<noteq> a \<or> \<not> in_api (pathname r) \<Longrightarrow> fst (limiter s r) a = s a"
  by (auto simp: limiter_def split: prod.splits)

lemma serve_cong:
  assumes "\<forall>r \<in> set rs. address r = a" and "s a = s' a"
  shows "serve s rs = serve s' rs"
  using assms
proof (induction rs arbitrary: s s')
  case Nil
  then show ?case by simp
next
  case (Cons r rs)
  from Cons.prems have ra: "address r = a" by simp
  with Cons.prems(2) have eq: "s (address r) = s' (address r)" by simp
  obtain t v where l: "limiter s r = (t, v)" by (cases "limiter s r")
  obtain t' v' where l': "limiter s' r = (t', v')" by (cases "limiter s' r")
  from limiter_cong [of s r s'] eq l l' ra have "v = v'" "t a = t' a" by simp_all
  moreover from Cons.prems(1) have "\<forall>r \<in> set rs. address r = a" by simp
  ultimately have "serve t rs = serve t' rs" "v = v'" using Cons.IH by blast+
  with l l' show ?case by simp
qed

lemma serve_frame:
  "map snd (filter (\<lambda>(r, v). address r = a \<and> in_api (pathname r)) (zip rs (serve s rs))) =
   serve s (filter (\<lambda>r. address r = a \<and> in_api (pathname r)) rs)"
proof (induction rs arbitrary: s)
  case Nil
  then show ?case by simp
next
  case (Cons r rs)
  obtain t v where l: "limiter s r = (t, v)" by (cases "limiter s r")
  show ?case
  proof (cases "address r = a \<and> in_api (pathname r)")
    case True
    with l Cons.IH [of t] show ?thesis by simp
  next
    case False
    then have "fst (limiter s r) a = s a" by (intro limiter_other) auto
    with l have "t a = s a" by simp
    then have "serve t (filter (\<lambda>r. address r = a \<and> in_api (pathname r)) rs) =
        serve s (filter (\<lambda>r. address r = a \<and> in_api (pathname r)) rs)"
      by (intro serve_cong) auto
    with False l Cons.IH [of t] show ?thesis by simp
  qed
qed

lemma serve_fresh_window:
  assumes "rs \<noteq> []"
    and "\<forall>r \<in> set rs. address r = a \<and> in_api (pathname r) \<and> now r < now (hd rs) + windowMs"
    and "case s a of None \<Rightarrow> True | Some (resetTime, totalHits) \<Rightarrow> resetTime \<le> now (hd rs)"
  shows "serve s rs =
     replicate (min 10 (length rs)) Next
     @ replicate (length rs - 10) (Respond rate_limited_response)"
proof -
  from assms(1) obtain r rest where rs: "rs = r # rest" by (cases rs) auto
  with assms(2) have r: "address r = a" "in_api (pathname r)" by auto
  let ?R = "now r + windowMs"
  let ?s' = "s(a \<mapsto> (?R, 1))"
  have step: "limiter s r = (?s', Next)"
    using r assms(3) rs
    by (auto simp: limiter_def increment_def max_requests_def split: option.splits)
  have "serve ?s' rest =
     replicate (min (max_requests - 1) (length rest)) Next
     @ replicate (length rest - (max_requests - 1)) (Respond rate_limited_response)"
    using assms(2) rs by (intro serve_open_window [where a = a and R = ?R]) auto
  with step show ?thesis
    by (simp add: rs max_requests_def min_def flip: replicate_Suc)
qed

lemma in_api_examples:
  "in_api (str ''/api/info'')" "in_api (str ''/api/download'')" "in_api (str ''/api'')"
  "\<not> in_api (str ''/r'')" "\<not> in_api (str ''/'')" "\<not> in_api (str ''/index.html'')"
  by (simp_all add: in_api_def ascii_lower_def str_def)


subsection \<open>The claim about the rate limiter\<close>

text \<open>
  Claim C6.  For every sequence of requests to the API namespace from one client
  address that lies within one 60-second window (the window that the first request
  opens), the first 10 requests go on to the downstream handlers and the 11th and
  every later one is answered with the rate-limit error, status 429 and the configured
  message, without a downstream handler being invoked.  A request outside the API
  namespace, such as the redirect route \<^verbatim>\<open>/r\<close> or a static asset, is passed on
  whatever the store holds and is not counted.  Requests of other clients and requests
  outside the namespace that arrive in between change nothing for the client: its
  requests get the verdicts they would get alone.
\<close>

theorem fixed_window_limit:
  assumes "rs \<noteq> []"
    and "\<forall>r \<in> set rs. address r = a \<and> in_api (pathname r) \<and> now r < now (hd rs) + windowMs"
    and "case s a of None \<Rightarrow> True | Some (resetTime, totalHits) \<Rightarrow> resetTime \<le> now (hd rs)"
  shows "serve s rs =
       replicate (min 10 (length rs)) Next
       @ replicate (length rs - 10) (Respond rate_limited_response)
    \<and> windowMs = 60000
    \<and> rate_limited_response =
       [Status 429,
        SendJson (ErrorBody (str ''Too many requests, please try again after a minute.''))]
    \<and> (\<forall>s' r. \<not> in_api (pathname r) \<longrightarrow> limiter s' r = (s', Next))
    \<and> \<not> in_api (str ''/r'') \<and> \<not> in_api (str ''/'') \<and> \<not> in_api (str ''/index.html'')
    \<and> (\<forall>s' qs.
         map snd (filter (\<lambda>(r, v). address r = a \<and> in_api (pathname r)) (zip qs (serve s' qs))) =
         serve s' (filter (\<lambda>r. address r = a \<and> in_api (pathname r)) qs))"
proof (intro conjI)
  show "serve s rs =
       replicate (min 10 (length rs)) Next
       @ replicate (length rs - 10) (Respond rate_limited_response)"
    using assms by (rule serve_fresh_window)
next
  show "windowMs = 60000" by (simp add: windowMs_def)
next
  show "rate_limited_response =
       [Status 429,
        SendJson (ErrorBody (str ''Too many requests, please try again after a minute.''))]"
    by (simp add: rate_limited_response_def limit_message_def)
next
  show "\<forall>s' r. \<not> in_api (pathname r) \<longrightarrow> limiter s' r = (s', Next)"
    by (simp add: limiter_outside)
next
  show "\<not> in_api (str ''/r'')" "\<not> in_api (str ''/'')" "\<not> in_api (str ''/index.html'')"
    by (rule in_api_examples)+
next
  show "\<forall>s' qs.
         map snd (filter (\<lambda>(r, v). address r = a \<and> in_api (pathname r)) (zip qs (serve s' qs))) =
         serve s' (filter (\<lambda>r. address r = a \<and> in_api (pathname r)) qs)"
    by (simp add: serve_frame)
qed

text \<open>
  Eleven requests to \<^verbatim>\<open>/api/info\<close> from one address within 50 seconds: ten go on,
  the eleventh is answered with 429.  A request of the same client to \<^verbatim>\<open>/r\<close> is
  passed on although its window is used up.
\<close>

theorem fixed_window_limit_witness:
  "serve Map.empty (burst 11) = replicate 10 Next @ [Respond rate_limited_response]
   \<and> length (burst 11) = 11
   \<and> now (last (burst 11)) = 50000
   \<and> limiter (Map.empty(str ''203.0.113.7'' \<mapsto> (60000, 11)))
       \<lparr> address = str ''203.0.113.7'', pathname = str ''/r'', now = 50001 \<rparr> =
       (Map.empty(str ''203.0.113.7'' \<mapsto> (60000, 11)), Next)"
proof -
  have ne: "burst 11 \<noteq> []" by (simp add: burst_def)
  have hd0: "now (hd (burst 11)) = 0" by (simp add: burst_def hd_map upt_rec)
  have all: "\<forall>r \<in> set (burst 11). address r = str ''203.0.113.7'' \<and> in_api (pathname r)
      \<and> now r < now (hd (burst 11)) + windowMs"
    unfolding hd0 by (auto simp: burst_def in_api_examples windowMs_def)
  have fresh: "case Map.empty (str ''203.0.113.7'') of None \<Rightarrow> True
      | Some (resetTime, totalHits) \<Rightarrow> resetTime \<le> now (hd (burst 11))"
    by simp
  note inst = fixed_window_limit [OF ne all fresh]
  have len: "length (burst 11) = 11" by (simp add: burst_def)
  from inst len have 1: "serve Map.empty (burst 11) =
      replicate 10 Next @ [Respond rate_limited_response]"
    by simp
  have 2: "now (last (burst 11)) = 50000" by (simp add: burst_def last_map)
  from inst have "\<not> in_api (pathname
      \<lparr> address = str ''203.0.113.7'', pathname = str ''/r'', now = 50001 \<rparr>)"
    by simp
  with inst have 3: "limiter (Map.empty(str ''203.0.113.7'' \<mapsto> (60000, 11)))
       \<lparr> address = str ''203.0.113.7'', pathname = str ''/r'', now = 50001 \<rparr> =
       (Map.empty(str ''203.0.113.7'' \<mapsto> (60000, 11)), Next)"
    by blast
  from 1 len 2 3 show ?thesis by blast
qed


end
